theory Spec2Isabelle
  imports Complex_Main "HOL-Library.Sublist" "HOL-Library.Multiset"
begin

section \<open>Numbers and strings of the source\<close>

text \<open>
  The TypeScript sources compute with the \<^verbatim>\<open>number\<close> type. A finite number is modelled
  by an exact rational: every literal of the sources (\<^verbatim>\<open>0.85\<close>, \<^verbatim>\<open>10.764\<close>, ...) is read
  as the decimal fraction it denotes and \<open>+\<close>, \<open>*\<close>, \<open>/\<close> are exact. The rounding and the
  overflow of IEEE doubles are outside this model, and so is the sign of zero.

  Strings are byte lists. The few non-ASCII literals of the sources are written as their
  UTF-8 bytes; the sources only compare these for equality, which the encoding preserves.
\<close>

type_synonym number = rat

abbreviation m_squared :: string where
  "m_squared \<equiv> ''m'' @ [CHR 0xC2, CHR 0xB2]"

abbreviation m_cubed :: string where
  "m_cubed \<equiv> ''m'' @ [CHR 0xC2, CHR 0xB3]"

text \<open>\<^verbatim>\<open>Math.floor\<close> and \<^verbatim>\<open>Math.round\<close> (halves go up) on exact numbers.\<close>

definition Math_floor :: "number \<Rightarrow> int" where
  "Math_floor x = \<lfloor>x\<rfloor>"

definition Math_round :: "number \<Rightarrow> int" where
  "Math_round x = \<lfloor>x + 1 / 2\<rfloor>"

text \<open>The rounding to two decimal places, \<^verbatim>\<open>Math.round(x * 100) / 100\<close>.\<close>

definition round2 :: "number \<Rightarrow> number" where
  "round2 x = of_int (Math_round (x * 100)) / 100"

text \<open>
  The conversion functions of the localization service read their rates and factors
  from object literals by a key the caller chooses, so what they read need not be a number,
  and what they return need not be finite. Their arguments and results are therefore values
  of \<open>js_number\<close>: a finite number, an infinity or \<^verbatim>\<open>NaN\<close>.
\<close>

datatype js_number = Num number | PosInfinity | NegInfinity | NaN

text \<open>
  What a property access yields, as far as these functions use it (they test it for
  truthiness and, if it is truthy, multiply or divide by it): \<^verbatim>\<open>undefined\<close>, which also
  stands for the other falsy values that are not numbers, a number, or an object, which
  stands for every other truthy value whose conversion to a number is \<^verbatim>\<open>NaN\<close> (a
  function, an object).
\<close>

datatype js_value = Undefined | Number number | Object

definition truthy :: "js_value \<Rightarrow> bool" where
  "truthy v = (case v of Undefined \<Rightarrow> False | Number r \<Rightarrow> r \<noteq> 0 | Object \<Rightarrow> True)"

definition ToNumber :: "js_value \<Rightarrow> js_number" where
  "ToNumber v = (case v of Undefined \<Rightarrow> NaN | Number r \<Rightarrow> Num r | Object \<Rightarrow> NaN)"

text \<open>\<^verbatim>\<open>v || d\<close> with a numeric default \<^verbatim>\<open>d\<close>.\<close>

definition or_default :: "js_value \<Rightarrow> number \<Rightarrow> js_value" where
  "or_default v d = (if truthy v then v else Number d)"

text \<open>
  The members every object literal inherits from \<^verbatim>\<open>Object.prototype\<close> (taken to be the
  standard one, not extended by other code): eleven functions and the accessor
  \<^verbatim>\<open>__proto__\<close>, which yields the prototype itself. A property access \<^verbatim>\<open>obj[key]\<close> on an
  object literal with numeric values finds the literal's own member first and an inherited
  one otherwise.
\<close>

definition Object_prototype_keys :: "string list" where
  "Object_prototype_keys =
    [''constructor'', ''__defineGetter__'', ''__defineSetter__'', ''hasOwnProperty'',
     ''__lookupGetter__'', ''__lookupSetter__'', ''isPrototypeOf'', ''propertyIsEnumerable'',
     ''toString'', ''valueOf'', ''__proto__'', ''toLocaleString'']"

definition get_property :: "(string \<times> number) list \<Rightarrow> string \<Rightarrow> js_value" where
  "get_property obj key =
    (case map_of obj key of
       Some r \<Rightarrow> Number r
     | None \<Rightarrow> if key \<in> set Object_prototype_keys then Object else Undefined)"

text \<open>
  Multiplication and division of the source on \<open>js_number\<close>: \<^verbatim>\<open>NaN\<close> is absorbing, an
  infinity times zero and the quotients \<open>0 / 0\<close> and of two infinities are \<^verbatim>\<open>NaN\<close>, and every
  other result with an infinite operand or a zero divisor is the infinity of the product
  of the signs (with zero counted as positive).
\<close>

fun sign_of :: "js_number \<Rightarrow> int" where
  "sign_of (Num a) = (if a < 0 then - 1 else 1)"
| "sign_of PosInfinity = 1"
| "sign_of NegInfinity = - 1"
| "sign_of NaN = 1"

definition infinity_signed :: "int \<Rightarrow> js_number" where
  "infinity_signed s = (if s < 0 then NegInfinity else PosInfinity)"

fun js_times :: "js_number \<Rightarrow> js_number \<Rightarrow> js_number" where
  "js_times NaN y = NaN"
| "js_times x NaN = NaN"
| "js_times (Num a) (Num b) = Num (a * b)"
| "js_times x y =
     (if x = Num 0 \<or> y = Num 0 then NaN else infinity_signed (sign_of x * sign_of y))"

fun js_divide :: "js_number \<Rightarrow> js_number \<Rightarrow> js_number" where
  "js_divide NaN y = NaN"
| "js_divide x NaN = NaN"
| "js_divide (Num a) (Num b) =
     (if b \<noteq> 0 then Num (a / b)
      else if a = 0 then NaN
      else infinity_signed (sign_of (Num a)))"
| "js_divide (Num a) y = Num 0"
| "js_divide x (Num b) = infinity_signed (sign_of x * sign_of (Num b))"
| "js_divide x y = NaN"

text \<open>A thrown value: an \<^verbatim>\<open>Error\<close> with its message, or any other value.\<close>

datatype thrown = Error string | Other

definition message_of :: "thrown \<Rightarrow> string" where
  \<comment> \<open>\<^verbatim>\<open>error instanceof Error ? error.message : 'Unknown error'\<close>\<close>
  "message_of e = (case e of Error m \<Rightarrow> m | Other \<Rightarrow> ''Unknown error'')"

section \<open>Localization registry (\<^verbatim>\<open>utils/localization\<close>)\<close>

datatype MeasurementSystem = metric | imperial

record ConstructionUnits =
  area :: string
  volume :: string
  length_unit :: string
  weight :: string

record CountryConfig =
  code :: string
  name :: string
  currency :: string
  currencySymbol :: string
  "locale" :: string
  dateFormat :: string
  numberFormat :: string
  timezone :: string
  measurementSystem :: MeasurementSystem
  constructionUnits :: ConstructionUnits

definition COUNTRIES :: "CountryConfig list" where
  "COUNTRIES =
  [
    \<lparr>code = ''US'', name = ''United States'', currency = ''USD'', currencySymbol = ''$'',
     locale = ''en-US'', dateFormat = ''MM/DD/YYYY'', numberFormat = ''1,234.56'',
     timezone = ''America/New_York'', measurementSystem = imperial,
     constructionUnits = \<lparr>area = ''sq ft'', volume = ''cu ft'', length_unit = ''ft'', weight = ''lbs''\<rparr>\<rparr>,
    \<lparr>code = ''CA'', name = ''Canada'', currency = ''CAD'', currencySymbol = ''C$'',
     locale = ''en-CA'', dateFormat = ''DD/MM/YYYY'', numberFormat = ''1,234.56'',
     timezone = ''America/Toronto'', measurementSystem = metric,
     constructionUnits = \<lparr>area = m_squared, volume = m_cubed, length_unit = ''m'', weight = ''kg''\<rparr>\<rparr>,
    \<lparr>code = ''MX'', name = ''Mexico'', currency = ''MXN'', currencySymbol = ''$'',
     locale = ''en-MX'', dateFormat = ''DD/MM/YYYY'', numberFormat = ''1,234.56'',
     timezone = ''America/Mexico_City'', measurementSystem = metric,
     constructionUnits = \<lparr>area = m_squared, volume = m_cubed, length_unit = ''m'', weight = ''kg''\<rparr>\<rparr>,
    \<lparr>code = ''GB'', name = ''United Kingdom'', currency = ''GBP'', currencySymbol = [CHR 0xC2, CHR 0xA3],
     locale = ''en-GB'', dateFormat = ''DD/MM/YYYY'', numberFormat = ''1,234.56'',
     timezone = ''Europe/London'', measurementSystem = metric,
     constructionUnits = \<lparr>area = m_squared, volume = m_cubed, length_unit = ''m'', weight = ''kg''\<rparr>\<rparr>,
    \<lparr>code = ''DE'', name = ''Germany'', currency = ''EUR'', currencySymbol = [CHR 0xE2, CHR 0x82, CHR 0xAC],
     locale = ''en-DE'', dateFormat = ''DD.MM.YYYY'', numberFormat = ''1.234,56'',
     timezone = ''Europe/Berlin'', measurementSystem = metric,
     constructionUnits = \<lparr>area = m_squared, volume = m_cubed, length_unit = ''m'', weight = ''kg''\<rparr>\<rparr>,
    \<lparr>code = ''FR'', name = ''France'', currency = ''EUR'', currencySymbol = [CHR 0xE2, CHR 0x82, CHR 0xAC],
     locale = ''en-FR'', dateFormat = ''DD/MM/YYYY'', numberFormat = ''1 234,56'',
     timezone = ''Europe/Paris'', measurementSystem = metric,
     constructionUnits = \<lparr>area = m_squared, volume = m_cubed, length_unit = ''m'', weight = ''kg''\<rparr>\<rparr>,
    \<lparr>code = ''ES'', name = ''Spain'', currency = ''EUR'', currencySymbol = [CHR 0xE2, CHR 0x82, CHR 0xAC],
     locale = ''en-ES'', dateFormat = ''DD/MM/YYYY'', numberFormat = ''1.234,56'',
     timezone = ''Europe/Madrid'', measurementSystem = metric,
     constructionUnits = \<lparr>area = m_squared, volume = m_cubed, length_unit = ''m'', weight = ''kg''\<rparr>\<rparr>,
    \<lparr>code = ''IT'', name = ''Italy'', currency = ''EUR'', currencySymbol = [CHR 0xE2, CHR 0x82, CHR 0xAC],
     locale = ''en-IT'', dateFormat = ''DD/MM/YYYY'', numberFormat = ''1.234,56'',
     timezone = ''Europe/Rome'', measurementSystem = metric,
     constructionUnits = \<lparr>area = m_squared, volume = m_cubed, length_unit = ''m'', weight = ''kg''\<rparr>\<rparr>,
    \<lparr>code = ''NL'', name = ''Netherlands'', currency = ''EUR'', currencySymbol = [CHR 0xE2, CHR 0x82, CHR 0xAC],
     locale = ''en-NL'', dateFormat = ''DD-MM-YYYY'', numberFormat = ''1.234,56'',
     timezone = ''Europe/Amsterdam'', measurementSystem = metric,
     constructionUnits = \<lparr>area = m_squared, volume = m_cubed, length_unit = ''m'', weight = ''kg''\<rparr>\<rparr>,
    \<lparr>code = ''CH'', name = ''Switzerland'', currency = ''CHF'', currencySymbol = ''CHF'',
     locale = ''en-CH'', dateFormat = ''DD.MM.YYYY'', numberFormat = ''1'' @ [CHR 0x27] @ ''234.56'',
     timezone = ''Europe/Zurich'', measurementSystem = metric,
     constructionUnits = \<lparr>area = m_squared, volume = m_cubed, length_unit = ''m'', weight = ''kg''\<rparr>\<rparr>,
    \<lparr>code = ''SE'', name = ''Sweden'', currency = ''SEK'', currencySymbol = ''kr'',
     locale = ''en-SE'', dateFormat = ''YYYY-MM-DD'', numberFormat = ''1 234,56'',
     timezone = ''Europe/Stockholm'', measurementSystem = metric,
     constructionUnits = \<lparr>area = m_squared, volume = m_cubed, length_unit = ''m'', weight = ''kg''\<rparr>\<rparr>,
    \<lparr>code = ''NO'', name = ''Norway'', currency = ''NOK'', currencySymbol = ''kr'',
     locale = ''en-NO'', dateFormat = ''DD.MM.YYYY'', numberFormat = ''1 234,56'',
     timezone = ''Europe/Oslo'', measurementSystem = metric,
     constructionUnits = \<lparr>area = m_squared, volume = m_cubed, length_unit = ''m'', weight = ''kg''\<rparr>\<rparr>,
    \<lparr>code = ''JP'', name = ''Japan'', currency = ''JPY'', currencySymbol = [CHR 0xC2, CHR 0xA5],
     locale = ''en-JP'', dateFormat = ''YYYY/MM/DD'', numberFormat = ''1,234'',
     timezone = ''Asia/Tokyo'', measurementSystem = metric,
     constructionUnits = \<lparr>area = m_squared, volume = m_cubed, length_unit = ''m'', weight = ''kg''\<rparr>\<rparr>,
    \<lparr>code = ''CN'', name = ''China'', currency = ''CNY'', currencySymbol = [CHR 0xC2, CHR 0xA5],
     locale = ''en-CN'', dateFormat = ''YYYY/MM/DD'', numberFormat = ''1,234.56'',
     timezone = ''Asia/Shanghai'', measurementSystem = metric,
     constructionUnits = \<lparr>area = m_squared, volume = m_cubed, length_unit = ''m'', weight = ''kg''\<rparr>\<rparr>,
    \<lparr>code = ''IN'', name = ''India'', currency = ''INR'', currencySymbol = [CHR 0xE2, CHR 0x82, CHR 0xB9],
     locale = ''en-IN'', dateFormat = ''DD/MM/YYYY'', numberFormat = ''1,23,456.78'',
     timezone = ''Asia/Kolkata'', measurementSystem = metric,
     constructionUnits = \<lparr>area = ''sq ft'', volume = ''cu ft'', length_unit = ''ft'', weight = ''kg''\<rparr>\<rparr>,
    \<lparr>code = ''AU'', name = ''Australia'', currency = ''AUD'', currencySymbol = ''A$'',
     locale = ''en-AU'', dateFormat = ''DD/MM/YYYY'', numberFormat = ''1,234.56'',
     timezone = ''Australia/Sydney'', measurementSystem = metric,
     constructionUnits = \<lparr>area = m_squared, volume = m_cubed, length_unit = ''m'', weight = ''kg''\<rparr>\<rparr>,
    \<lparr>code = ''NZ'', name = ''New Zealand'', currency = ''NZD'', currencySymbol = ''NZ$'',
     locale = ''en-NZ'', dateFormat = ''DD/MM/YYYY'', numberFormat = ''1,234.56'',
     timezone = ''Pacific/Auckland'', measurementSystem = metric,
     constructionUnits = \<lparr>area = m_squared, volume = m_cubed, length_unit = ''m'', weight = ''kg''\<rparr>\<rparr>,
    \<lparr>code = ''SG'', name = ''Singapore'', currency = ''SGD'', currencySymbol = ''S$'',
     locale = ''en-SG'', dateFormat = ''DD/MM/YYYY'', numberFormat = ''1,234.56'',
     timezone = ''Asia/Singapore'', measurementSystem = metric,
     constructionUnits = \<lparr>area = m_squared, volume = m_cubed, length_unit = ''m'', weight = ''kg''\<rparr>\<rparr>,
    \<lparr>code = ''KR'', name = ''South Korea'', currency = ''KRW'', currencySymbol = [CHR 0xE2, CHR 0x82, CHR 0xA9],
     locale = ''en-KR'', dateFormat = ''YYYY.MM.DD'', numberFormat = ''1,234'',
     timezone = ''Asia/Seoul'', measurementSystem = metric,
     constructionUnits = \<lparr>area = m_squared, volume = m_cubed, length_unit = ''m'', weight = ''kg''\<rparr>\<rparr>,
    \<lparr>code = ''AE'', name = ''United Arab Emirates'', currency = ''AED'', currencySymbol = [CHR 0xD8, CHR 0xAF] @ ''.'' @ [CHR 0xD8, CHR 0xA5],
     locale = ''en-AE'', dateFormat = ''DD/MM/YYYY'', numberFormat = ''1,234.56'',
     timezone = ''Asia/Dubai'', measurementSystem = metric,
     constructionUnits = \<lparr>area = m_squared, volume = m_cubed, length_unit = ''m'', weight = ''kg''\<rparr>\<rparr>,
    \<lparr>code = ''SA'', name = ''Saudi Arabia'', currency = ''SAR'', currencySymbol = [CHR 0xD8, CHR 0xB1] @ ''.'' @ [CHR 0xD8, CHR 0xB3],
     locale = ''en-SA'', dateFormat = ''DD/MM/YYYY'', numberFormat = ''1,234.56'',
     timezone = ''Asia/Riyadh'', measurementSystem = metric,
     constructionUnits = \<lparr>area = m_squared, volume = m_cubed, length_unit = ''m'', weight = ''kg''\<rparr>\<rparr>,
    \<lparr>code = ''ZA'', name = ''South Africa'', currency = ''ZAR'', currencySymbol = ''R'',
     locale = ''en-ZA'', dateFormat = ''YYYY/MM/DD'', numberFormat = ''1 234,56'',
     timezone = ''Africa/Johannesburg'', measurementSystem = metric,
     constructionUnits = \<lparr>area = m_squared, volume = m_cubed, length_unit = ''m'', weight = ''kg''\<rparr>\<rparr>,
    \<lparr>code = ''BR'', name = ''Brazil'', currency = ''BRL'', currencySymbol = ''R$'',
     locale = ''en-BR'', dateFormat = ''DD/MM/YYYY'', numberFormat = ''1.234,56'',
     timezone = ''America/Sao_Paulo'', measurementSystem = metric,
     constructionUnits = \<lparr>area = m_squared, volume = m_cubed, length_unit = ''m'', weight = ''kg''\<rparr>\<rparr>,
    \<lparr>code = ''AR'', name = ''Argentina'', currency = ''ARS'', currencySymbol = ''$'',
     locale = ''en-AR'', dateFormat = ''DD/MM/YYYY'', numberFormat = ''1.234,56'',
     timezone = ''America/Argentina/Buenos_Aires'', measurementSystem = metric,
     constructionUnits = \<lparr>area = m_squared, volume = m_cubed, length_unit = ''m'', weight = ''kg''\<rparr>\<rparr>,
    \<lparr>code = ''CL'', name = ''Chile'', currency = ''CLP'', currencySymbol = ''$'',
     locale = ''en-CL'', dateFormat = ''DD-MM-YYYY'', numberFormat = ''1.234'',
     timezone = ''America/Santiago'', measurementSystem = metric,
     constructionUnits = \<lparr>area = m_squared, volume = m_cubed, length_unit = ''m'', weight = ''kg''\<rparr>\<rparr>
  ]"

text \<open>
  \<^verbatim>\<open>EXCHANGE_RATES\<close>: the own members of the object literal, as an association list.
\<close>

definition EXCHANGE_RATES :: "(string \<times> number) list" where
  "EXCHANGE_RATES =
  [(''USD'', 1), (''EUR'', 85 / 100), (''GBP'', 73 / 100), (''JPY'', 110),
   (''CAD'', 125 / 100), (''AUD'', 135 / 100), (''CHF'', 92 / 100), (''CNY'', 645 / 100),
   (''INR'', 745 / 10), (''BRL'', 52 / 10), (''MXN'', 201 / 10), (''KRW'', 1180),
   (''SGD'', 135 / 100), (''NZD'', 142 / 100), (''SEK'', 86 / 10), (''NOK'', 88 / 10),
   (''AED'', 367 / 100), (''SAR'', 375 / 100), (''ZAR'', 148 / 10), (''ARS'', 985 / 10),
   (''CLP'', 800)]"

text \<open>
  \<^verbatim>\<open>detectUserCountry\<close>. The two browser readings, \<^verbatim>\<open>navigator.language\<close> and the
  resolved time zone, are the arguments. \<^verbatim>\<open>Array.find\<close> is \<open>find\<close>: the first match or
  \<open>None\<close> for \<^verbatim>\<open>undefined\<close>. The result stays optional, since the non-null assertion
  \<^verbatim>\<open>!\<close> of the last line checks nothing at run time.
\<close>

definition split_first :: "string \<Rightarrow> string" where
  \<comment> \<open>\<^verbatim>\<open>s.split('-')[0]\<close>\<close>
  "split_first s = takeWhile (\<lambda>ch. ch \<noteq> CHR ''-'') s"

definition startsWith :: "string \<Rightarrow> string \<Rightarrow> bool" where
  "startsWith s p = prefix p s"

definition detectUserCountry :: "string \<Rightarrow> string \<Rightarrow> CountryConfig option" where
  "detectUserCountry navigator_language timeZone =
    (let userLocale = (if navigator_language = [] then ''en-US'' else navigator_language);
         country = find (\<lambda>c. locale c = userLocale) COUNTRIES;
         country = (case country of
                      None \<Rightarrow> find (\<lambda>c. timezone c = timeZone) COUNTRIES
                    | Some c \<Rightarrow> Some c);
         country = (case country of
                      None \<Rightarrow> (let langCode = split_first userLocale
                               in find (\<lambda>c. startsWith (locale c) langCode) COUNTRIES)
                    | Some c \<Rightarrow> Some c)
     in case country of
          None \<Rightarrow> find (\<lambda>c. code c = ''US'') COUNTRIES
        | Some c \<Rightarrow> Some c)"

definition convertCurrency :: "js_number \<Rightarrow> string \<Rightarrow> string \<Rightarrow> js_number" where
  "convertCurrency amount fromCurrency toCurrency =
    (if fromCurrency = toCurrency then amount
     else
       let fromRate = or_default (get_property EXCHANGE_RATES fromCurrency) 1;
           toRate = or_default (get_property EXCHANGE_RATES toCurrency) 1;
           usdAmount = js_divide amount (ToNumber fromRate)
       in js_times usdAmount (ToNumber toRate))"

text \<open>
  \<^verbatim>\<open>convertUnits\<close> with its table \<^verbatim>\<open>conversions\<close>. In
  \<^verbatim>\<open>conversions[fromUnit]?.[toUnit]\<close> the first access finds a row of the table, or a
  member inherited from \<^verbatim>\<open>Object.prototype\<close>, or nothing. The second access reads a row
  like any object literal. What it reads from an inherited member is a matter of the
  engine, and is the argument \<open>inherited_member\<close>: for the names of such a member and of
  the property, the value of the property, or the error its accessor throws.
\<close>

definition conversions :: "(string \<times> (string \<times> number) list) list" where
  "conversions =
  [(m_squared, [(''sq ft'', 10764 / 1000), (''sq m'', 1)]),
   (''sq ft'', [(m_squared, 929 / 10000), (''sq ft'', 1)]),
   (m_cubed, [(''cu ft'', 35314 / 1000), (''cu m'', 1)]),
   (''cu ft'', [(m_cubed, 283 / 10000), (''cu ft'', 1)]),
   (''m'', [(''ft'', 3281 / 1000), (''m'', 1)]),
   (''ft'', [(''m'', 305 / 1000), (''ft'', 1)]),
   (''kg'', [(''lbs'', 2205 / 1000), (''kg'', 1)]),
   (''lbs'', [(''kg'', 454 / 1000), (''lbs'', 1)])]"

definition convertUnits ::
  "(string \<Rightarrow> string \<Rightarrow> thrown + js_value) \<Rightarrow> js_number \<Rightarrow> string \<Rightarrow> string
     \<Rightarrow> thrown + js_number" where
  "convertUnits inherited_member value fromUnit toUnit =
    (if fromUnit = toUnit then Inr value
     else
       case (case map_of conversions fromUnit of
               Some row \<Rightarrow> Inr (get_property row toUnit)
             | None \<Rightarrow>
                 if fromUnit \<in> set Object_prototype_keys
                 then inherited_member fromUnit toUnit
                 else Inr Undefined) of
         Inl e \<Rightarrow> Inl e
       | Inr conversion \<Rightarrow>
           Inr (if truthy conversion then js_times value (ToNumber conversion) else value))"

text \<open>The unit pairs the conversion table supports in both directions.\<close>

definition supported_unit_pairs :: "(string \<times> string) list" where
  "supported_unit_pairs =
    [(m_squared, ''sq ft''), (m_cubed, ''cu ft''), (''m'', ''ft''), (''kg'', ''lbs'')]"

section \<open>Fallback estimator (\<^verbatim>\<open>services/aiProcessing\<close>)\<close>

record CatalogItem =
  category :: string
  description :: string
  unit :: string
  baseRate :: number

text \<open>The local constant \<^verbatim>\<open>items\<close> of \<^verbatim>\<open>generateFallbackEstimation\<close>.\<close>

definition items_catalog :: "CatalogItem list" where
  "items_catalog =
  [\<lparr>category = ''Structural'', description = ''Concrete Foundation'', unit = m_cubed, baseRate = 450\<rparr>,
   \<lparr>category = ''Structural'', description = ''Steel Framework'', unit = ''tons'', baseRate = 2800\<rparr>,
   \<lparr>category = ''Structural'', description = ''Reinforcement Bars'', unit = ''kg'', baseRate = 12 / 10\<rparr>,
   \<lparr>category = ''Civil'', description = ''Brick Work'', unit = m_squared, baseRate = 85\<rparr>,
   \<lparr>category = ''Civil'', description = ''Plastering'', unit = m_squared, baseRate = 25\<rparr>,
   \<lparr>category = ''Civil'', description = ''Flooring Tiles'', unit = m_squared, baseRate = 120\<rparr>,
   \<lparr>category = ''Electrical'', description = ''Wiring & Fixtures'', unit = ''lot'', baseRate = 185000\<rparr>,
   \<lparr>category = ''Electrical'', description = ''Distribution Panel'', unit = ''unit'', baseRate = 15000\<rparr>,
   \<lparr>category = ''Plumbing'', description = ''Piping & Fixtures'', unit = ''lot'', baseRate = 145000\<rparr>,
   \<lparr>category = ''Plumbing'', description = ''Water Tank'', unit = ''unit'', baseRate = 25000\<rparr>,
   \<lparr>category = ''Finishing'', description = ''Interior Painting'', unit = m_squared, baseRate = 35\<rparr>,
   \<lparr>category = ''Finishing'', description = ''Exterior Painting'', unit = m_squared, baseRate = 45\<rparr>,
   \<lparr>category = ''HVAC'', description = ''Air Conditioning'', unit = ''unit'', baseRate = 85000\<rparr>,
   \<lparr>category = ''HVAC'', description = ''Ventilation System'', unit = ''lot'', baseRate = 65000\<rparr>]"

record LineItem =
  category :: string
  description :: string
  quantity :: number
  unit :: string
  rate :: number
  amount :: number

text \<open>\<^verbatim>\<open>xs.slice(0, e)\<close> for an integral \<^verbatim>\<open>e\<close>: a negative end counts from the end.\<close>

definition slice0 :: "int \<Rightarrow> 'a list \<Rightarrow> 'a list" where
  "slice0 e xs = (if e < 0 then take (nat (int (length xs) + e)) xs else take (nat e) xs)"

text \<open>
  \<^verbatim>\<open>generateFallbackEstimation\<close>. Its randomness is made explicit by two arguments:
  \<open>sorted_items\<close> is the array that \<^verbatim>\<open>items.sort(() => Math.random() - 0.5)\<close> leaves
  (the order is up to the engine), and \<open>random i\<close> is the value of the \<open>i\<close>-th call of
  \<^verbatim>\<open>Math.random()\<close> after the sort: call \<open>0\<close> fixes the number of items, calls
  \<open>2 * i + 1\<close> and \<open>2 * i + 2\<close> the quantity and the rate of the \<open>i\<close>-th selected item.
\<close>

definition fallback_item :: "(nat \<Rightarrow> number) \<Rightarrow> nat \<Rightarrow> CatalogItem \<Rightarrow> LineItem" where
  "fallback_item random i item =
    (let quantity = of_int (Math_floor (random (2 * i + 1) * 200) + 10);
         rate = baseRate item * (8 / 10 + random (2 * i + 2) * (4 / 10));
         amount = quantity * rate
     in \<lparr>category = CatalogItem.category item,
         description = CatalogItem.description item,
         quantity = quantity,
         unit = CatalogItem.unit item,
         rate = round2 rate,
         amount = round2 amount\<rparr>)"

definition generateFallbackEstimation :: "CatalogItem list \<Rightarrow> (nat \<Rightarrow> number) \<Rightarrow> LineItem list" where
  "generateFallbackEstimation sorted_items random =
    (let selectedItems = slice0 (8 + Math_floor (random 0 * 5)) sorted_items
     in map (\<lambda>(i, item). fallback_item random i item) (enumerate 0 selectedItems))"

text \<open>\<^verbatim>\<open>estimationItems.reduce((sum, item) => sum + item.amount, 0)\<close>\<close>

definition sum_amounts :: "LineItem list \<Rightarrow> number" where
  "sum_amounts estimationItems = foldl (\<lambda>sum item. sum + amount item) 0 estimationItems"

section \<open>Document processing (\<^verbatim>\<open>services/documentProcessor\<close>, \<^verbatim>\<open>services/aiProviders\<close>)\<close>

record IdentifiedItem =
  category :: string
  description :: string
  quantity :: number
  unit :: string
  estimatedRate :: number
  confidence :: number

record DocumentAnalysisResult =
  extractedText :: string
  identifiedItems :: "IdentifiedItem list"
  projectType :: string
  totalEstimatedCost :: number
  accuracy :: number
  insights :: "string list"

record AIConfig =
  provider :: string
  model :: string
  apiKey :: string

text \<open>Truthiness of an optional string: \<^verbatim>\<open>undefined\<close> and \<^verbatim>\<open>''\<close> are falsy.\<close>

definition truthy_str :: "string option \<Rightarrow> bool" where
  "truthy_str v = (case v of None \<Rightarrow> False | Some s \<Rightarrow> s \<noteq> [])"

definition or_str :: "string option \<Rightarrow> string \<Rightarrow> string" where
  "or_str v d = (case v of None \<Rightarrow> d | Some s \<Rightarrow> if s = [] then d else s)"

record File =
  name :: string
  "type" :: string
  data :: string

record ProcessedDocument =
  fileName :: string
  fileType :: string
  content :: string
  analysisResult :: "DocumentAnalysisResult option"
  error :: "string option"

text \<open>The build-time environment \<^verbatim>\<open>import.meta.env\<close>.\<close>

record Env =
  VITE_AI_PROVIDER :: "string option"
  VITE_AI_MODEL :: "string option"
  VITE_OPENAI_API_KEY :: "string option"
  VITE_ANTHROPIC_API_KEY :: "string option"
  VITE_GOOGLE_AI_API_KEY :: "string option"

text \<open>
  Everything a run of the pipeline takes from outside the program:
  \<^item> \<open>env\<close>, the environment;
  \<^item> \<open>storage_download\<close>, the object store: for a \<^verbatim>\<open>file_url\<close> it throws, or returns the
    file data, or \<^verbatim>\<open>null\<close> data;
  \<^item> \<open>extract_content\<close>, the content extraction that \<^verbatim>\<open>processFile\<close> dispatches to by file type
    (readers of the browser): it returns the content or throws;
  \<^item> \<open>analyzeDocument\<close>, the call of the AI provider: it returns an analysis or throws;
  \<^item> \<open>insert_error\<close>, the error of the insertion into \<^verbatim>\<open>estimation_items\<close>, if any;
  \<^item> \<open>elapsed_ms\<close>, the milliseconds between the two readings of \<^verbatim>\<open>Date.now()\<close>;
  \<^item> \<open>sorted_items\<close> and \<open>random\<close>, the randomness of the fallback estimator.
  The other calls of the metadata store (the updates and the selection of the files) are
  taken to succeed; the sources do not look at their errors.
\<close>

record World =
  env :: Env
  storage_download :: "string \<Rightarrow> thrown + string option"
  extract_content :: "File \<Rightarrow> thrown + string"
  analyzeDocument :: "string \<Rightarrow> string \<Rightarrow> AIConfig \<Rightarrow> thrown + DocumentAnalysisResult"
  insert_error :: "thrown option"
  elapsed_ms :: nat
  sorted_items :: "CatalogItem list"
  random :: "nat \<Rightarrow> number"

definition getAvailableProviders :: "Env \<Rightarrow> string list" where
  \<comment> \<open>a provider client exists exactly if its key is truthy (\<^verbatim>\<open>initializeProviders\<close>)\<close>
  "getAvailableProviders e =
    (if truthy_str (VITE_OPENAI_API_KEY e) then [''openai''] else []) @
    (if truthy_str (VITE_ANTHROPIC_API_KEY e) then [''anthropic''] else []) @
    (if truthy_str (VITE_GOOGLE_AI_API_KEY e) then [''google''] else [])"

definition processFile :: "World \<Rightarrow> File \<Rightarrow> ProcessedDocument" where
  "processFile w file =
    (let result = \<lparr>fileName = File.name file, fileType = type file, content = [],
                    analysisResult = None, error = None\<rparr>
     in case extract_content w file of
          Inr c \<Rightarrow> result\<lparr>content := c\<rparr>
        | Inl e \<Rightarrow>
            result\<lparr>error :=
              Some (''Failed to process '' @ File.name file @ '': '' @ message_of e)\<rparr>)"

definition analyzeWithAI :: "World \<Rightarrow> ProcessedDocument \<Rightarrow> AIConfig \<Rightarrow> ProcessedDocument" where
  "analyzeWithAI w document config =
    (if truthy_str (error document) then document
     else
       case analyzeDocument w (content document) (fileName document) config of
         Inr result \<Rightarrow> document\<lparr>analysisResult := Some result\<rparr>
       | Inl e \<Rightarrow> document\<lparr>error := Some (''AI analysis failed: '' @ message_of e)\<rparr>)"

section \<open>The processing pipeline (\<^verbatim>\<open>services/aiProcessing\<close>)\<close>

record ProcessingResult =
  totalCost :: number
  items :: "LineItem list"
  accuracy :: number
  processingTime :: string

text \<open>
  The tables of the metadata store, with the columns the pipeline reads or writes. A row
  of \<^verbatim>\<open>estimation_items\<close> is the pair of its \<^verbatim>\<open>project_id\<close> and the item's columns,
  for \<^verbatim>\<open>{ project_id: projectId, ...item }\<close>.
\<close>

record Project =
  id :: string
  status :: string
  total_cost :: number
  accuracy :: number
  processing_time :: "string option"

record ProjectFile =
  id :: string
  project_id :: string
  file_name :: string
  file_type :: string
  file_url :: string
  processing_status :: string

record Database =
  projects :: "Project list"
  project_files :: "ProjectFile list"
  estimation_items :: "(string \<times> LineItem) list"

definition update_project :: "string \<Rightarrow> (Project \<Rightarrow> Project) \<Rightarrow> Database \<Rightarrow> Database" where
  \<comment> \<open>\<^verbatim>\<open>from('projects').update(...).eq('id', projectId)\<close>\<close>
  "update_project projectId f db =
    db\<lparr>projects := map (\<lambda>p. if Project.id p = projectId then f p else p) (projects db)\<rparr>"

definition update_processing_status :: "string \<Rightarrow> string \<Rightarrow> Database \<Rightarrow> Database" where
  \<comment> \<open>\<^verbatim>\<open>from('project_files').update({ processing_status }).eq('id', fileRecord.id)\<close>\<close>
  "update_processing_status fileId s db =
    db\<lparr>project_files :=
         map (\<lambda>f. if ProjectFile.id f = fileId then f\<lparr>processing_status := s\<rparr> else f)
           (project_files db)\<rparr>"

text \<open>The decimal numeral of a natural number, as a template literal prints it.\<close>

function decimal :: "nat \<Rightarrow> string" where
  "decimal n =
    (if n < 10 then [''0123456789'' ! n]
     else decimal (n div 10) @ [''0123456789'' ! (n mod 10)])"
  by pat_completeness auto
termination
  by (relation "measure (\<lambda>n. n)") auto

declare decimal.simps [simp del]

text \<open>
  The loop over the files carries the store and the three accumulators
  \<^verbatim>\<open>allAnalysisResults\<close>, \<^verbatim>\<open>totalEstimatedCost\<close> and \<^verbatim>\<open>averageAccuracy\<close>.
\<close>

type_synonym accumulators = "DocumentAnalysisResult list \<times> number \<times> number"

definition analyse_file ::
  "World \<Rightarrow> AIConfig \<Rightarrow> ProjectFile \<Rightarrow> accumulators \<Rightarrow> thrown + accumulators" where
  \<comment> \<open>the body of \<^verbatim>\<open>if (useRealAI) { ... }\<close>\<close>
  "analyse_file w aiConfig fileRecord acc =
    (case acc of (allAnalysisResults, totalEstimatedCost', averageAccuracy) \<Rightarrow>
      (case storage_download w (file_url fileRecord) of
         Inl e \<Rightarrow> Inl e
       | Inr None \<Rightarrow> Inr acc
       | Inr (Some fileData) \<Rightarrow>
           (let file = \<lparr>name = file_name fileRecord, type = file_type fileRecord,
                         data = fileData\<rparr>;
                processedDoc = processFile w file
            in if \<not> truthy_str (error processedDoc) then
                 (let analyzedDoc = analyzeWithAI w processedDoc aiConfig
                  in case analysisResult analyzedDoc of
                       Some result \<Rightarrow>
                         if \<not> truthy_str (error analyzedDoc) then
                           Inr (allAnalysisResults @ [result],
                                totalEstimatedCost'
                                  + DocumentAnalysisResult.totalEstimatedCost result,
                                averageAccuracy + DocumentAnalysisResult.accuracy result)
                         else Inr acc
                     | None \<Rightarrow> Inr acc)
               else Inr acc)))"

definition process_file ::
  "World \<Rightarrow> bool \<Rightarrow> AIConfig \<Rightarrow> Database \<times> accumulators \<Rightarrow> ProjectFile
     \<Rightarrow> Database \<times> accumulators" where
  \<comment> \<open>one iteration of \<^verbatim>\<open>for (const fileRecord of files)\<close>, with its \<^verbatim>\<open>try\<close> and \<^verbatim>\<open>catch\<close>\<close>
  "process_file w useRealAI aiConfig st fileRecord =
    (case st of (db, acc) \<Rightarrow>
      (let db1 = update_processing_status (ProjectFile.id fileRecord) ''processing'' db
       in case (if useRealAI then analyse_file w aiConfig fileRecord acc else Inr acc) of
            Inr acc' \<Rightarrow>
              (update_processing_status (ProjectFile.id fileRecord) ''completed'' db1, acc')
          | Inl e \<Rightarrow>
              (update_processing_status (ProjectFile.id fileRecord) ''error'' db1, acc)))"

definition to_line_item :: "IdentifiedItem \<Rightarrow> LineItem" where
  "to_line_item item =
    \<lparr>LineItem.category = IdentifiedItem.category item,
     LineItem.description = IdentifiedItem.description item,
     LineItem.quantity = IdentifiedItem.quantity item,
     LineItem.unit = IdentifiedItem.unit item,
     rate = estimatedRate item,
     amount = IdentifiedItem.quantity item * estimatedRate item\<rparr>"

definition flatten_items :: "DocumentAnalysisResult list \<Rightarrow> LineItem list" where
  \<comment> \<open>\<^verbatim>\<open>allAnalysisResults.flatMap(result => result.identifiedItems.map(...))\<close>\<close>
  "flatten_items allAnalysisResults =
    concat (map (\<lambda>result. map to_line_item (identifiedItems result)) allAnalysisResults)"

definition aggregate_results ::
  "World \<Rightarrow> bool \<Rightarrow> accumulators \<Rightarrow> LineItem list \<times> number \<times> number" where
  \<comment> \<open>from \<^verbatim>\<open>let estimationItems\<close> to the end of the \<^verbatim>\<open>if\<close>: the items, the total, the accuracy\<close>
  "aggregate_results w useRealAI acc =
    (case acc of (allAnalysisResults, totalEstimatedCost', averageAccuracy) \<Rightarrow>
      if useRealAI \<and> allAnalysisResults \<noteq> [] then
        (let estimationItems = flatten_items allAnalysisResults
         in if estimationItems = [] then
              (let estimationItems = generateFallbackEstimation (sorted_items w) (random w)
               in (estimationItems, sum_amounts estimationItems, 85))
            else
              (estimationItems, sum_amounts estimationItems,
               averageAccuracy / of_nat (length allAnalysisResults)))
      else
        (let estimationItems = generateFallbackEstimation (sorted_items w) (random w)
         in (estimationItems, sum_amounts estimationItems,
             92 + random w (1 + 2 * length estimationItems) * 6)))"

text \<open>
  The \<^verbatim>\<open>try\<close> block of \<^verbatim>\<open>processProjectFiles\<close>: \<open>Inl\<close> is a throw, with the store as
  the throw finds it, \<open>Inr\<close> the returned result with the final store.
\<close>

definition processProjectFiles_try ::
  "World \<Rightarrow> Database \<Rightarrow> string \<Rightarrow> thrown \<times> Database + ProcessingResult \<times> Database" where
  "processProjectFiles_try w db projectId =
    (let db1 = update_project projectId (\<lambda>p. p\<lparr>status := ''processing''\<rparr>) db;
         files = filter (\<lambda>f. project_id f = projectId) (project_files db1)
     in if files = [] then Inl (Error ''No files found for processing'', db1)
        else
          (let aiConfig =
                 \<lparr>provider = or_str (VITE_AI_PROVIDER (env w)) ''openai'',
                  model = or_str (VITE_AI_MODEL (env w)) ''gpt-4o'',
                  apiKey =
                    or_str (VITE_OPENAI_API_KEY (env w))
                      (or_str (VITE_ANTHROPIC_API_KEY (env w))
                        (or_str (VITE_GOOGLE_AI_API_KEY (env w)) []))\<rparr>;
               availableProviders = getAvailableProviders (env w);
               useRealAI = (availableProviders \<noteq> [] \<and> apiKey aiConfig \<noteq> [])
           in case foldl (process_file w useRealAI aiConfig) (db1, [], 0, 0) files of
                (db2, acc) \<Rightarrow>
                  (case aggregate_results w useRealAI acc of
                     (estimationItems, totalEstimatedCost', averageAccuracy) \<Rightarrow>
                       (let processingTime =
                              decimal (nat (Math_round (of_nat (elapsed_ms w) / 1000))) @ ''s''
                        in case insert_error w of
                             Some itemsError \<Rightarrow> Inl (itemsError, db2)
                           | None \<Rightarrow>
                               (let db3 = db2\<lparr>estimation_items :=
                                             estimation_items db2 @
                                             map (\<lambda>item. (projectId, item)) estimationItems\<rparr>;
                                    db4 = update_project projectId
                                            (\<lambda>p. p\<lparr>status := ''completed'',
                                                    total_cost := totalEstimatedCost',
                                                    Project.accuracy :=
                                                      of_int (Math_round (averageAccuracy * 10)) / 10,
                                                    processing_time := Some processingTime\<rparr>)
                                            db3
                                in Inr (\<lparr>totalCost = totalEstimatedCost',
                                         items = estimationItems,
                                         ProcessingResult.accuracy =
                                           of_int (Math_round (averageAccuracy * 10)) / 10,
                                         processingTime = processingTime\<rparr>,
                                        db4))))))"

text \<open>
  \<^verbatim>\<open>processProjectFiles\<close>: the result is the thrown value or the returned
  \<^verbatim>\<open>ProcessingResult\<close>, with the store the call leaves. The \<^verbatim>\<open>catch\<close> puts the project
  back to \<^verbatim>\<open>draft\<close> and throws again.
\<close>

definition processProjectFiles ::
  "World \<Rightarrow> Database \<Rightarrow> string \<Rightarrow> (thrown + ProcessingResult) \<times> Database" where
  "processProjectFiles w db projectId =
    (case processProjectFiles_try w db projectId of
       Inr (result, db') \<Rightarrow> (Inr result, db')
     | Inl (e, db') \<Rightarrow> (Inl e, update_project projectId (\<lambda>p. p\<lparr>status := ''draft''\<rparr>) db'))"

section \<open>A concrete project\<close>

text \<open>
  A project \<^verbatim>\<open>p1\<close> with two uploaded files. An OpenAI key is configured, both files
  download and extract. The provider's call throws for \<^verbatim>\<open>a.pdf\<close>; for \<^verbatim>\<open>b.pdf\<close> it
  returns one item of 10 units at 150 and reports a total of 9999 of its own.
\<close>

definition analysis_b :: DocumentAnalysisResult where
  "analysis_b =
    \<lparr>extractedText = ''slab'',
     identifiedItems =
       [\<lparr>IdentifiedItem.category = ''Structural'', IdentifiedItem.description = ''Slab'',
         IdentifiedItem.quantity = 10, IdentifiedItem.unit = ''m3'', estimatedRate = 150,
         confidence = 90\<rparr>],
     projectType = ''Residential'',
     totalEstimatedCost = 9999,
     DocumentAnalysisResult.accuracy = 90,
     insights = []\<rparr>"

definition world1 :: World where
  "world1 =
    \<lparr>env = \<lparr>VITE_AI_PROVIDER = None, VITE_AI_MODEL = None,
             VITE_OPENAI_API_KEY = Some ''sk-1'', VITE_ANTHROPIC_API_KEY = None,
             VITE_GOOGLE_AI_API_KEY = None\<rparr>,
     storage_download = (\<lambda>url. Inr (Some ''%PDF'')),
     extract_content = (\<lambda>file. Inr ''text''),
     analyzeDocument =
       (\<lambda>content fileName config.
          if fileName = ''b.pdf'' then Inr analysis_b else Inl (Error ''timeout'')),
     insert_error = None,
     elapsed_ms = 2400,
     sorted_items = items_catalog,
     random = (\<lambda>i. 1 / 64)\<rparr>"

definition db1 :: Database where
  "db1 =
    \<lparr>projects =
       [\<lparr>Project.id = ''p1'', status = ''draft'', total_cost = 0, Project.accuracy = 0,
         processing_time = None\<rparr>],
     project_files =
       [\<lparr>ProjectFile.id = ''f1'', project_id = ''p1'', file_name = ''a.pdf'',
         file_type = ''application/pdf'', file_url = ''p1/a.pdf'',
         processing_status = ''pending''\<rparr>,
        \<lparr>ProjectFile.id = ''f2'', project_id = ''p1'', file_name = ''b.pdf'',
         file_type = ''application/pdf'', file_url = ''p1/b.pdf'',
         processing_status = ''pending''\<rparr>],
     estimation_items = []\<rparr>"

text \<open>The items the fallback estimator makes of the catalog in its order from these draws.\<close>

definition fallback_sample :: "LineItem list" where
  "fallback_sample = generateFallbackEstimation (sorted_items world1) (random world1)"

text \<open>The one item the analysis of \<^verbatim>\<open>b.pdf\<close> yields, and the result of a run on it.\<close>

definition slab :: LineItem where
  "slab =
    \<lparr>LineItem.category = ''Structural'', LineItem.description = ''Slab'',
     LineItem.quantity = 10, LineItem.unit = ''m3'', rate = 150, amount = 1500\<rparr>"

definition result1 :: ProcessingResult where
  "result1 =
    \<lparr>totalCost = 1500, items = [slab], ProcessingResult.accuracy = 90,
     processingTime = ''2s''\<rparr>"

definition db1_processed :: "(string \<times> LineItem) list \<Rightarrow> Database" where
  \<comment> \<open>the store after a run, with the given rows of \<^verbatim>\<open>estimation_items\<close>\<close>
  "db1_processed rows =
    \<lparr>projects =
       [\<lparr>Project.id = ''p1'', status = ''completed'', total_cost = 1500,
         Project.accuracy = 90, processing_time = Some ''2s''\<rparr>],
     project_files =
       [\<lparr>ProjectFile.id = ''f1'', project_id = ''p1'', file_name = ''a.pdf'',
         file_type = ''application/pdf'', file_url = ''p1/a.pdf'',
         processing_status = ''completed''\<rparr>,
        \<lparr>ProjectFile.id = ''f2'', project_id = ''p1'', file_name = ''b.pdf'',
         file_type = ''application/pdf'', file_url = ''p1/b.pdf'',
         processing_status = ''completed''\<rparr>],
     estimation_items = rows\<rparr>"

text \<open>The configuration the pipeline builds from the environment of \<open>world1\<close>.\<close>

definition config1 :: AIConfig where
  "config1 = \<lparr>provider = ''openai'', model = ''gpt-4o'', apiKey = ''sk-1''\<rparr>"

definition file_a :: File where
  "file_a = \<lparr>name = ''a.pdf'', type = ''application/pdf'', data = ''%PDF''\<rparr>"

text \<open>The first run on the project, and a second run on the store the first one leaves.\<close>

definition first_run :: "(thrown + ProcessingResult) \<times> Database" where
  "first_run = processProjectFiles world1 db1 ''p1''"

definition second_run :: "(thrown + ProcessingResult) \<times> Database" where
  "second_run = processProjectFiles world1 (snd first_run) ''p1''"

section \<open>Properties of the localization registry\<close>

subsection \<open>Country resolution\<close>

lemma find_SomeD: "find P xs = Some x \<Longrightarrow> x \<in> set xs \<and> P x"
  by (auto simp add: find_Some_iff)

lemma find_NoneD: "find P xs = None \<Longrightarrow> \<forall>x \<in> set xs. \<not> P x"
  by (simp add: find_None_iff)

lemma find_US:
  "\<exists>c. find (\<lambda>c. code c = ''US'') COUNTRIES = Some c \<and> c \<in> set COUNTRIES \<and> code c = ''US''"
proof -
  have "\<exists>c \<in> set COUNTRIES. code c = ''US''"
    by (simp add: COUNTRIES_def)
  then obtain c where "find (\<lambda>c. code c = ''US'') COUNTRIES = Some c"
    by (cases "find (\<lambda>c. code c = ''US'') COUNTRIES") (auto simp add: find_None_iff)
  then show ?thesis
    by (auto simp add: find_Some_iff)
qed

text \<open>
  C7. For every browser locale and time zone, \<open>detectUserCountry\<close> returns a country of
  the registry, never \<^verbatim>\<open>undefined\<close>. The country is chosen in this order: a country
  with exactly the locale if there is one; otherwise a country with exactly the time zone if
  there is one; otherwise a country whose locale starts with the language code if there is
  one; otherwise the United States entry.
\<close>

theorem detectUserCountry_total:
  "\<exists>c. detectUserCountry navigator_language timeZone = Some c \<and> c \<in> set COUNTRIES \<and>
     (let userLocale = (if navigator_language = [] then ''en-US'' else navigator_language);
          langCode = split_first userLocale
      in if \<exists>d \<in> set COUNTRIES. locale d = userLocale then locale c = userLocale
         else if \<exists>d \<in> set COUNTRIES. timezone d = timeZone then timezone c = timeZone
         else if \<exists>d \<in> set COUNTRIES. startsWith (locale d) langCode
              then startsWith (locale c) langCode
         else code c = ''US'')"
proof -
  define ul where "ul = (if navigator_language = [] then ''en-US'' else navigator_language)"
  define lc where "lc = split_first ul"
  let ?f1 = "find (\<lambda>c. locale c = ul) COUNTRIES"
  let ?f2 = "find (\<lambda>c. timezone c = timeZone) COUNTRIES"
  let ?f3 = "find (\<lambda>c. startsWith (locale c) lc) COUNTRIES"
  have unfold: "detectUserCountry navigator_language timeZone =
    (case ?f1 of Some c \<Rightarrow> Some c | None \<Rightarrow>
       (case ?f2 of Some c \<Rightarrow> Some c | None \<Rightarrow>
          (case ?f3 of Some c \<Rightarrow> Some c
           | None \<Rightarrow> find (\<lambda>c. code c = ''US'') COUNTRIES)))"
    by (simp add: detectUserCountry_def ul_def lc_def Let_def split: option.splits)
  show ?thesis
  proof (cases ?f1)
    case (Some c)
    then show ?thesis using find_SomeD [OF Some]
      unfolding unfold Let_def ul_def [symmetric] by auto
  next
    case n1: None
    show ?thesis
    proof (cases ?f2)
      case (Some c)
      then show ?thesis using find_SomeD [OF Some] find_NoneD [OF n1] n1
        unfolding unfold Let_def ul_def [symmetric] by auto
    next
      case n2: None
      show ?thesis
      proof (cases ?f3)
        case (Some c)
        then show ?thesis
          using find_SomeD [OF Some] find_NoneD [OF n1] find_NoneD [OF n2] n1 n2
          unfolding unfold Let_def ul_def [symmetric] lc_def [symmetric] by auto
      next
        case n3: None
        from find_US obtain u where "find (\<lambda>c. code c = ''US'') COUNTRIES = Some u"
          "u \<in> set COUNTRIES" "code u = ''US''" by blast
        then show ?thesis
          using find_NoneD [OF n1] find_NoneD [OF n2] find_NoneD [OF n3] n1 n2 n3
          unfolding unfold Let_def ul_def [symmetric] lc_def [symmetric] by auto
      qed
    qed
  qed
qed

lemma no_locale_fr_FR: "\<forall>d \<in> set COUNTRIES. locale d \<noteq> ''fr-FR''"
  by (simp add: COUNTRIES_def)

lemma no_timezone_Troll: "\<forall>d \<in> set COUNTRIES. timezone d \<noteq> ''Antarctica/Troll''"
  by (simp add: COUNTRIES_def)

lemma no_locale_prefix_fr: "\<forall>d \<in> set COUNTRIES. \<not> startsWith (locale d) ''fr''"
  by (simp add: COUNTRIES_def startsWith_def)

text \<open>A French browser in a time zone of no registered country is resolved to the US.\<close>

theorem detectUserCountry_total_witness:
  "\<exists>c. detectUserCountry ''fr-FR'' ''Antarctica/Troll'' = Some c \<and> code c = ''US''"
proof -
  have s: "split_first ''fr-FR'' = ''fr''"
    by (simp add: split_first_def)
  from detectUserCountry_total [of "''fr-FR''" "''Antarctica/Troll''"]
    no_locale_fr_FR no_timezone_Troll no_locale_prefix_fr s
  show ?thesis by (auto simp add: Let_def)
qed

subsection \<open>Currency conversion\<close>

lemma rates_nonzero: "map_of EXCHANGE_RATES c = Some r \<Longrightarrow> r \<noteq> 0"
proof -
  assume "map_of EXCHANGE_RATES c = Some r"
  then have "(c, r) \<in> set EXCHANGE_RATES"
    by (rule map_of_SomeD)
  moreover have "\<forall>p \<in> set EXCHANGE_RATES. snd p \<noteq> 0"
    by (simp add: EXCHANGE_RATES_def)
  ultimately show ?thesis by fastforce
qed

lemma rate_or_default:
  assumes "c \<notin> set Object_prototype_keys"
  shows "ToNumber (or_default (get_property EXCHANGE_RATES c) 1) =
           Num (case map_of EXCHANGE_RATES c of None \<Rightarrow> 1 | Some r \<Rightarrow> r)"
  using assms
  by (auto simp add: or_default_def get_property_def truthy_def ToNumber_def
      dest: rates_nonzero split: option.splits)

lemma rate_inherited:
  assumes "c \<in> set Object_prototype_keys"
  shows "ToNumber (or_default (get_property EXCHANGE_RATES c) 1) = NaN"
proof -
  have "\<forall>k \<in> set Object_prototype_keys. map_of EXCHANGE_RATES k = None"
    by (simp add: Object_prototype_keys_def EXCHANGE_RATES_def)
  with assms have "get_property EXCHANGE_RATES c = Object"
    by (simp add: get_property_def)
  then show ?thesis
    by (simp add: or_default_def truthy_def ToNumber_def)
qed

lemma usd_rate: "map_of EXCHANGE_RATES ''USD'' = Some 1"
  by (simp add: EXCHANGE_RATES_def)

lemma eur_rate: "map_of EXCHANGE_RATES ''EUR'' = Some (85 / 100)"
  by (simp add: EXCHANGE_RATES_def)

lemma usd_not_inherited: "''USD'' \<notin> set Object_prototype_keys"
  by (simp add: Object_prototype_keys_def)

lemma divide_times_one: "js_times (js_divide x (Num 1)) (Num 1) = x"
  by (cases x) (simp_all add: infinity_signed_def)

text \<open>
  C5. For every amount \<open>x\<close>, finite or not, and every currency code \<open>A\<close>, in the table
  or not, \<open>convertCurrency x A A\<close> is \<open>x\<close> itself: the comparison of the two codes returns
  the argument before any rate is read.
\<close>

theorem convertCurrency_identity: "convertCurrency x A A = x"
  by (simp add: convertCurrency_def)

text \<open>
  For two distinct codes of which at least one is missing from the table, and neither of
  which names an inherited member, \<open>convertCurrency\<close> computes with the rate \<open>1\<close> in place
  of each missing rate, so that an unknown currency is converted like USD.
\<close>

lemma convertCurrency_missing_rate:
  assumes "A \<noteq> B"
    and "map_of EXCHANGE_RATES A = None \<or> map_of EXCHANGE_RATES B = None"
    and "A \<notin> set Object_prototype_keys" and "B \<notin> set Object_prototype_keys"
  shows "convertCurrency x A B =
           js_times
             (js_divide x (Num (case map_of EXCHANGE_RATES A of None \<Rightarrow> 1 | Some r \<Rightarrow> r)))
             (Num (case map_of EXCHANGE_RATES B of None \<Rightarrow> 1 | Some r \<Rightarrow> r))
         \<and> (map_of EXCHANGE_RATES A = None \<longrightarrow>
              convertCurrency x A B = convertCurrency x ''USD'' B)
         \<and> (map_of EXCHANGE_RATES B = None \<longrightarrow>
              convertCurrency x A B = convertCurrency x A ''USD'')"
proof (intro conjI impI)
  show "convertCurrency x A B =
           js_times
             (js_divide x (Num (case map_of EXCHANGE_RATES A of None \<Rightarrow> 1 | Some r \<Rightarrow> r)))
             (Num (case map_of EXCHANGE_RATES B of None \<Rightarrow> 1 | Some r \<Rightarrow> r))"
    using assms(1) by (simp add: convertCurrency_def Let_def rate_or_default assms(3,4))
next
  assume n: "map_of EXCHANGE_RATES A = None"
  show "convertCurrency x A B = convertCurrency x ''USD'' B"
  proof (cases "B = ''USD''")
    case True
    then show ?thesis using n assms(1)
      by (simp add: convertCurrency_def Let_def rate_or_default assms(3) usd_not_inherited
          usd_rate divide_times_one)
  next
    case False
    then have "''USD'' \<noteq> B" by blast
    then show ?thesis using n assms(1)
      by (simp add: convertCurrency_def Let_def rate_or_default assms(3,4) usd_not_inherited
          usd_rate)
  qed
next
  assume n: "map_of EXCHANGE_RATES B = None"
  show "convertCurrency x A B = convertCurrency x A ''USD''"
  proof (cases "A = ''USD''")
    case True
    then show ?thesis using n assms(1)
      by (simp add: convertCurrency_def Let_def rate_or_default assms(4) usd_not_inherited
          usd_rate divide_times_one)
  next
    case False
    then show ?thesis using n assms(1)
      by (simp add: convertCurrency_def Let_def rate_or_default assms(3,4) usd_not_inherited
          usd_rate)
  qed
qed

lemma convertCurrency_missing_rate_example:
  "convertCurrency (Num 200) ''XYZ'' ''EUR'' = Num 170 \<and>
   convertCurrency (Num 200) ''XYZ'' ''EUR'' = convertCurrency (Num 200) ''USD'' ''EUR''"
proof -
  have d: "''XYZ'' \<noteq> ''EUR''" by simp
  have n: "map_of EXCHANGE_RATES ''XYZ'' = None"
    by (simp add: EXCHANGE_RATES_def)
  have k: "''XYZ'' \<notin> set Object_prototype_keys" "''EUR'' \<notin> set Object_prototype_keys"
    by (simp_all add: Object_prototype_keys_def)
  note r = convertCurrency_missing_rate [OF d disjI1 [OF n] k, of "Num 200"]
  have a: "convertCurrency (Num 200) ''XYZ'' ''EUR'' = Num 170"
    using r [THEN conjunct1] by (simp add: n eur_rate)
  have b: "convertCurrency (Num 200) ''XYZ'' ''EUR'' = convertCurrency (Num 200) ''USD'' ''EUR''"
    using r [THEN conjunct2, THEN conjunct1] n by blast
  show ?thesis
    by (rule conjI [OF a b])
qed

text \<open>
  C10. The codes \<^verbatim>\<open>constructor\<close> and \<^verbatim>\<open>toString\<close> are absent from the exchange-rate
  table, yet \<open>convertCurrency\<close> does not compute with the rate \<open>1\<close> for them: the property
  access finds the function every object inherits under that name, the function is truthy,
  so the default of \<^verbatim>\<open>|| 1\<close> is not taken, and the division or the multiplication by the
  function gives \<^verbatim>\<open>NaN\<close>. With the rate \<open>1\<close> the two conversions of 100 would give 100 and
  85.
\<close>

theorem convertCurrency_inherited_code:
  "map_of EXCHANGE_RATES ''constructor'' = None \<and>
   map_of EXCHANGE_RATES ''toString'' = None \<and>
   convertCurrency (Num 100) ''constructor'' ''USD'' = NaN \<and>
   convertCurrency (Num 100) ''USD'' ''toString'' = NaN \<and>
   js_times (js_divide (Num 100) (Num 1)) (Num 1) = Num 100"
proof -
  have c: "''constructor'' \<in> set Object_prototype_keys"
    and t: "''toString'' \<in> set Object_prototype_keys"
    by (simp_all add: Object_prototype_keys_def)
  have "map_of EXCHANGE_RATES ''constructor'' = None"
    and "map_of EXCHANGE_RATES ''toString'' = None"
    by (simp_all add: EXCHANGE_RATES_def)
  moreover have "convertCurrency (Num 100) ''constructor'' ''USD'' = NaN"
    by (simp add: convertCurrency_def Let_def rate_inherited [OF c]
        rate_or_default [OF usd_not_inherited])
  moreover have "convertCurrency (Num 100) ''USD'' ''toString'' = NaN"
    by (simp add: convertCurrency_def Let_def rate_inherited [OF t]
        rate_or_default [OF usd_not_inherited] usd_rate)
  ultimately show ?thesis by simp
qed

subsection \<open>Unit conversion\<close>

lemma convertUnits_area:
  "convertUnits im (Num v) m_squared ''sq ft'' = Inr (Num (v * (10764 / 1000)))"
  by (simp add: convertUnits_def conversions_def get_property_def truthy_def ToNumber_def)

lemma convertUnits_area_back:
  "convertUnits im (Num v) ''sq ft'' m_squared = Inr (Num (v * (929 / 10000)))"
  by (simp add: convertUnits_def conversions_def get_property_def truthy_def ToNumber_def)

lemma convertUnits_volume:
  "convertUnits im (Num v) m_cubed ''cu ft'' = Inr (Num (v * (35314 / 1000)))"
  by (simp add: convertUnits_def conversions_def get_property_def truthy_def ToNumber_def)

lemma convertUnits_volume_back:
  "convertUnits im (Num v) ''cu ft'' m_cubed = Inr (Num (v * (283 / 10000)))"
  by (simp add: convertUnits_def conversions_def get_property_def truthy_def ToNumber_def)

lemma convertUnits_length:
  "convertUnits im (Num v) ''m'' ''ft'' = Inr (Num (v * (3281 / 1000)))"
  by (simp add: convertUnits_def conversions_def get_property_def truthy_def ToNumber_def)

lemma convertUnits_length_back:
  "convertUnits im (Num v) ''ft'' ''m'' = Inr (Num (v * (305 / 1000)))"
  by (simp add: convertUnits_def conversions_def get_property_def truthy_def ToNumber_def)

lemma convertUnits_weight:
  "convertUnits im (Num v) ''kg'' ''lbs'' = Inr (Num (v * (2205 / 1000)))"
  by (simp add: convertUnits_def conversions_def get_property_def truthy_def ToNumber_def)

lemma convertUnits_weight_back:
  "convertUnits im (Num v) ''lbs'' ''kg'' = Inr (Num (v * (454 / 1000)))"
  by (simp add: convertUnits_def conversions_def get_property_def truthy_def ToNumber_def)

text \<open>
  Outside the table the inherited members show: with an engine in which the function
  \<^verbatim>\<open>__defineGetter__\<close> has the \<^verbatim>\<open>length\<close> 2, the value 5 is doubled.
\<close>

lemma convertUnits_inherited_member_example:
  "convertUnits (\<lambda>member property. Inr (if property = ''length'' then Number 2 else Undefined))
     (Num 5) ''__defineGetter__'' ''length'' = Inr (Num 10)"
  by (simp add: convertUnits_def conversions_def Object_prototype_keys_def truthy_def
      ToNumber_def)

lemma scaled_within:
  fixes v a b :: rat
  assumes "\<bar>a * b - 1\<bar> \<le> 1 / 100"
  shows "\<bar>v * a * b - v\<bar> \<le> \<bar>v\<bar> / 100"
proof -
  have "v * a * b - v = v * (a * b - 1)"
    by (simp add: algebra_simps)
  then have "\<bar>v * a * b - v\<bar> = \<bar>v\<bar> * \<bar>a * b - 1\<bar>"
    by (simp only: abs_mult)
  also have "\<dots> \<le> \<bar>v\<bar> * (1 / 100)"
    using assms by (intro mult_left_mono) auto
  finally show ?thesis by simp
qed

lemma round_trip_by_factors:
  assumes fwd: "\<And>x. convertUnits im (Num x) U V = Inr (Num (x * a))"
    and bwd: "\<And>x. convertUnits im (Num x) V U = Inr (Num (x * b))"
    and near: "\<bar>a * b - 1\<bar> \<le> 1 / 100"
  shows "(\<exists>y z. convertUnits im (Num v) U V = Inr (Num y) \<and>
                convertUnits im (Num y) V U = Inr (Num z) \<and> \<bar>z - v\<bar> \<le> \<bar>v\<bar> / 100) \<and>
         (\<exists>y z. convertUnits im (Num v) V U = Inr (Num y) \<and>
                convertUnits im (Num y) U V = Inr (Num z) \<and> \<bar>z - v\<bar> \<le> \<bar>v\<bar> / 100)"
proof (intro conjI)
  have "\<bar>v * a * b - v\<bar> \<le> \<bar>v\<bar> / 100"
    using near by (rule scaled_within)
  then show "\<exists>y z. convertUnits im (Num v) U V = Inr (Num y) \<and>
                convertUnits im (Num y) V U = Inr (Num z) \<and> \<bar>z - v\<bar> \<le> \<bar>v\<bar> / 100"
    using fwd [of v] bwd [of "v * a"] by blast
next
  from near have "\<bar>b * a - 1\<bar> \<le> 1 / 100"
    by (simp add: mult.commute)
  then have "\<bar>v * b * a - v\<bar> \<le> \<bar>v\<bar> / 100"
    by (rule scaled_within)
  then show "\<exists>y z. convertUnits im (Num v) V U = Inr (Num y) \<and>
                convertUnits im (Num y) U V = Inr (Num z) \<and> \<bar>z - v\<bar> \<le> \<bar>v\<bar> / 100"
    using bwd [of v] fwd [of "v * b"] by blast
qed

text \<open>
  C6. For each of the four supported unit pairs (area, volume, length, weight), in either
  direction, and every value \<open>v\<close>, converting \<open>v\<close> and converting the result back gives a
  value within 1 percent of \<open>v\<close>, whatever the engine's inherited members are.
\<close>

theorem convertUnits_round_trip:
  assumes "(U, V) \<in> set supported_unit_pairs"
  shows "(\<exists>y z. convertUnits im (Num v) U V = Inr (Num y) \<and>
                convertUnits im (Num y) V U = Inr (Num z) \<and> \<bar>z - v\<bar> \<le> \<bar>v\<bar> / 100) \<and>
         (\<exists>y z. convertUnits im (Num v) V U = Inr (Num y) \<and>
                convertUnits im (Num y) U V = Inr (Num z) \<and> \<bar>z - v\<bar> \<le> \<bar>v\<bar> / 100)"
proof -
  from assms consider "U = m_squared \<and> V = ''sq ft''" | "U = m_cubed \<and> V = ''cu ft''"
    | "U = ''m'' \<and> V = ''ft''" | "U = ''kg'' \<and> V = ''lbs''"
    unfolding supported_unit_pairs_def by auto
  then show ?thesis
  proof cases
    case 1
    have "\<bar>(10764 / 1000) * (929 / 10000) - (1 :: rat)\<bar> \<le> 1 / 100" by simp
    with 1 show ?thesis
      using round_trip_by_factors [OF convertUnits_area convertUnits_area_back] by blast
  next
    case 2
    have "\<bar>(35314 / 1000) * (283 / 10000) - (1 :: rat)\<bar> \<le> 1 / 100" by simp
    with 2 show ?thesis
      using round_trip_by_factors [OF convertUnits_volume convertUnits_volume_back] by blast
  next
    case 3
    have "\<bar>(3281 / 1000) * (305 / 1000) - (1 :: rat)\<bar> \<le> 1 / 100" by simp
    with 3 show ?thesis
      using round_trip_by_factors [OF convertUnits_length convertUnits_length_back] by blast
  next
    case 4
    have "\<bar>(2205 / 1000) * (454 / 1000) - (1 :: rat)\<bar> \<le> 1 / 100" by simp
    with 4 show ?thesis
      using round_trip_by_factors [OF convertUnits_weight convertUnits_weight_back] by blast
  qed
qed

theorem convertUnits_round_trip_witness:
  "(''kg'', ''lbs'') \<in> set supported_unit_pairs \<and>
   convertUnits (\<lambda>member property. Inr Undefined) (Num 1000) ''kg'' ''lbs'' = Inr (Num 2205) \<and>
   convertUnits (\<lambda>member property. Inr Undefined) (Num 2205) ''lbs'' ''kg''
     = Inr (Num (100107 / 100)) \<and>
   \<bar>100107 / 100 - 1000\<bar> \<le> \<bar>1000 :: rat\<bar> / 100"
proof -
  have m: "(''kg'', ''lbs'') \<in> set supported_unit_pairs"
    by (simp add: supported_unit_pairs_def)
  have e1: "convertUnits (\<lambda>member property. Inr Undefined) (Num 1000) ''kg'' ''lbs''
              = Inr (Num 2205)"
    by (simp add: convertUnits_weight)
  have e2: "convertUnits (\<lambda>member property. Inr Undefined) (Num 2205) ''lbs'' ''kg''
              = Inr (Num (100107 / 100))"
    by (simp add: convertUnits_weight_back)
  from convertUnits_round_trip [OF m, of "\<lambda>member property. Inr Undefined" 1000]
  obtain y z where "convertUnits (\<lambda>member property. Inr Undefined) (Num 1000) ''kg'' ''lbs''
        = Inr (Num y)"
    and "convertUnits (\<lambda>member property. Inr Undefined) (Num y) ''lbs'' ''kg'' = Inr (Num z)"
    and "\<bar>z - 1000\<bar> \<le> \<bar>1000\<bar> / 100"
    by blast
  with e1 e2 have "\<bar>100107 / 100 - 1000\<bar> \<le> \<bar>1000 :: rat\<bar> / 100"
    by simp
  with m e1 e2 show ?thesis by blast
qed

section \<open>Properties of the fallback estimator\<close>

lemma foldl_amounts: "foldl (\<lambda>sum item. sum + amount item) a xs = a + sum_list (map amount xs)"
  by (induction xs arbitrary: a) (simp_all add: add.assoc)

lemma sum_amounts_sum_list: "sum_amounts xs = sum_list (map amount xs)"
  by (simp add: sum_amounts_def foldl_amounts)

lemma catalog_baseRate: "\<forall>c \<in> set items_catalog. 6 / 5 \<le> baseRate c"
  by (simp add: items_catalog_def)

lemma catalog_length: "length items_catalog = 14"
  by (simp add: items_catalog_def)

lemma floor_rat_numeral: "\<lfloor>(numeral a :: rat) / numeral b\<rfloor> = numeral a div numeral b"
  using floor_divide_of_int_eq [of "numeral a" "numeral b", where ?'a = rat] by simp

lemma Math_round_pos: "1 / 2 \<le> x \<Longrightarrow> 0 < Math_round x"
  by (simp add: Math_round_def less_floor_iff)

lemma round2_pos:
  assumes "1 / 200 \<le> x"
  shows "0 < round2 x"
proof -
  from assms have "1 / 2 \<le> x * 100" by simp
  then have "0 < Math_round (x * 100)" by (rule Math_round_pos)
  then show ?thesis by (simp add: round2_def)
qed

lemma round2_error: "\<bar>round2 x - x\<bar> \<le> 1 / 200"
proof -
  let ?k = "\<lfloor>x * 100 + 1 / 2\<rfloor>"
  have a: "of_int ?k \<le> x * 100 + 1 / 2"
    by (rule of_int_floor_le)
  have b: "x * 100 + 1 / 2 < of_int ?k + 1"
    using floor_correct [of "x * 100 + 1 / 2"] by simp
  have "\<bar>of_int ?k - x * 100\<bar> \<le> 1 / 2"
    using a b by linarith
  then have "\<bar>(of_int ?k - x * 100) / 100\<bar> \<le> (1 / 2) / 100"
    by (simp only: abs_divide) simp
  moreover have "(of_int ?k - x * 100) / 100 = round2 x - x"
    by (simp add: round2_def Math_round_def diff_divide_distrib)
  ultimately show ?thesis by simp
qed

lemma count_draw_bounds:
  fixes u :: rat
  assumes "0 \<le> u" and "u < 1"
  shows "0 \<le> Math_floor (u * 5) \<and> Math_floor (u * 5) \<le> 4"
  using assms by (simp add: Math_floor_def floor_le_iff)

lemma quantity_draw_bound:
  fixes u :: rat
  assumes "0 \<le> u"
  shows "0 \<le> Math_floor (u * 200)"
  using assms by (simp add: Math_floor_def)

lemma slice0_take: "\<exists>k. slice0 e xs = take k xs"
  by (auto simp add: slice0_def)

lemma generateFallbackEstimation_length:
  "length (generateFallbackEstimation s r) = length (slice0 (8 + Math_floor (r 0 * 5)) s)"
  by (simp add: generateFallbackEstimation_def)

lemma generateFallbackEstimation_nth:
  assumes "i < length (generateFallbackEstimation s r)"
  shows "generateFallbackEstimation s r ! i = fallback_item r i (s ! i)"
    and "i < length s"
proof -
  obtain k where k: "slice0 (8 + Math_floor (r 0 * 5)) s = take k s"
    using slice0_take by blast
  from assms have i: "i < length (take k s)"
    by (simp add: generateFallbackEstimation_length k)
  then show "i < length s" by simp
  from i show "generateFallbackEstimation s r ! i = fallback_item r i (s ! i)"
    by (simp add: generateFallbackEstimation_def k nth_enumerate_eq)
qed

text \<open>
  C2. Whatever order the random sort leaves the catalog in, and whatever values in
  \<open>[0, 1)\<close> the draws take, \<open>generateFallbackEstimation\<close> returns between 8 and 12 items;
  every item has a positive quantity and a positive rate, and an amount that is a whole
  number of hundredths. The total the pipeline computes from the items is the sum of their
  amounts.
\<close>

theorem generateFallbackEstimation_valid:
  assumes "mset (sorted_items w) = mset items_catalog"
    and "\<forall>i. 0 \<le> random w i \<and> random w i < 1"
  shows "let estimationItems = generateFallbackEstimation (sorted_items w) (random w)
         in 8 \<le> length estimationItems \<and> length estimationItems \<le> 12 \<and>
            (\<forall>item \<in> set estimationItems.
               0 < LineItem.quantity item \<and> 0 < rate item \<and>
               (\<exists>k :: int. amount item = of_int k / 100)) \<and>
            sum_amounts estimationItems = sum_list (map amount estimationItems) \<and>
            (\<forall>acc. aggregate_results w False acc =
                     (estimationItems, sum_list (map amount estimationItems),
                      92 + random w (1 + 2 * length estimationItems) * 6))"
proof -
  define out where "out = generateFallbackEstimation (sorted_items w) (random w)"
  define e where "e = Math_floor (random w 0 * 5)"
  from assms(1) have len: "length (sorted_items w) = 14"
    using mset_eq_length [of "sorted_items w" items_catalog] by (simp add: catalog_length)
  from assms(1) have members: "set (sorted_items w) = set items_catalog"
    by (rule mset_eq_setD)
  from assms(2) have e: "0 \<le> e" "e \<le> 4"
    unfolding e_def using count_draw_bounds [of "random w 0"] by simp_all
  have "length out = length (slice0 (8 + e) (sorted_items w))"
    unfolding out_def e_def by (rule generateFallbackEstimation_length)
  also have "\<dots> = nat (8 + e)"
    using e len by (simp add: slice0_def)
  finally have length_out: "length out = nat (8 + e)" .
  have items_ok: "0 < LineItem.quantity item \<and> 0 < rate item \<and>
      (\<exists>k :: int. amount item = of_int k / 100)" if "item \<in> set out" for item
  proof -
    from that obtain i where i: "i < length out" and item: "item = out ! i"
      by (auto simp add: in_set_conv_nth)
    from i have eq: "out ! i = fallback_item (random w) i (sorted_items w ! i)"
      and "i < length (sorted_items w)"
      unfolding out_def by (rule generateFallbackEstimation_nth)+
    then have "sorted_items w ! i \<in> set items_catalog"
      using members nth_mem by blast
    then have base: "6 / 5 \<le> baseRate (sorted_items w ! i)"
      using catalog_baseRate by blast
    have q: "0 \<le> Math_floor (random w (2 * i + 1) * 200)"
      using assms(2) by (intro quantity_draw_bound) simp
    have u: "0 \<le> random w (2 * i + 2)"
      using assms(2) by simp
    have "8 / 10 \<le> 8 / 10 + random w (2 * i + 2) * (4 / 10)"
      using u by simp
    then have "(6 / 5) * (8 / 10) \<le>
        baseRate (sorted_items w ! i) * (8 / 10 + random w (2 * i + 2) * (4 / 10))"
      using base by (intro mult_mono) simp_all
    then have "1 / 200 \<le>
        baseRate (sorted_items w ! i) * (8 / 10 + random w (2 * i + 2) * (4 / 10))"
      by simp
    then have r: "0 < round2
        (baseRate (sorted_items w ! i) * (8 / 10 + random w (2 * i + 2) * (4 / 10)))"
      by (rule round2_pos)
    have "0 < LineItem.quantity item"
      using q by (simp add: item eq fallback_item_def Let_def)
    moreover have "0 < rate item"
      using r by (simp add: item eq fallback_item_def Let_def)
    moreover have "\<exists>k :: int. amount item = of_int k / 100"
      by (auto simp add: item eq fallback_item_def Let_def round2_def)
    ultimately show ?thesis by blast
  qed
  have "8 \<le> length out" and "length out \<le> 12"
    using e by (simp_all add: length_out)
  moreover have "aggregate_results w False acc =
      (out, sum_list (map amount out), 92 + random w (1 + 2 * length out) * 6)" for acc
    by (cases acc) (simp add: aggregate_results_def out_def Let_def sum_amounts_sum_list)
  ultimately show ?thesis
    using items_ok unfolding out_def [symmetric] Let_def
    by (simp add: sum_amounts_sum_list)
qed

lemma fallback_sample_length: "length fallback_sample = 8"
  by (simp add: fallback_sample_def world1_def generateFallbackEstimation_def slice0_def
      Math_floor_def items_catalog_def floor_rat_numeral)

theorem generateFallbackEstimation_valid_witness:
  "mset (sorted_items world1) = mset items_catalog \<and>
   0 \<le> random world1 0 \<and> random world1 0 < 1 \<and>
   length fallback_sample = 8 \<and>
   0 < LineItem.quantity (fallback_sample ! 0) \<and> 0 < rate (fallback_sample ! 0) \<and>
   sum_amounts fallback_sample = sum_list (map amount fallback_sample)"
proof -
  have p: "mset (sorted_items world1) = mset items_catalog"
    by (simp add: world1_def)
  have d: "\<forall>i. 0 \<le> random world1 i \<and> random world1 i < 1"
    by (simp add: world1_def)
  have m: "fallback_sample ! 0 \<in> set fallback_sample"
    by (rule nth_mem) (simp add: fallback_sample_length)
  from generateFallbackEstimation_valid [OF p d] m p d fallback_sample_length
  show ?thesis
    unfolding fallback_sample_def [symmetric] Let_def by blast
qed

text \<open>
  C3, as the code has it. For every item the fallback estimator returns, the rate field
  is the jittered rate rounded to two decimal places, and the amount is the quantity times
  the jittered rate before that rounding, rounded to two decimal places. So the amount
  differs from the product of the two fields by at most a hundredth of half the quantity
  plus half a hundredth.
\<close>

theorem fallback_item_amount:
  assumes "i < length (generateFallbackEstimation s r)"
  shows "let item = generateFallbackEstimation s r ! i;
             jittered = baseRate (s ! i) * (8 / 10 + r (2 * i + 2) * (4 / 10))
         in rate item = round2 jittered \<and>
            amount item = round2 (LineItem.quantity item * jittered) \<and>
            \<bar>amount item - LineItem.quantity item * rate item\<bar>
              \<le> (\<bar>LineItem.quantity item\<bar> + 1) / 200"
proof -
  define item where "item = generateFallbackEstimation s r ! i"
  define j where "j = baseRate (s ! i) * (8 / 10 + r (2 * i + 2) * (4 / 10))"
  define q where "q = LineItem.quantity item"
  from assms have eq: "item = fallback_item r i (s ! i)"
    unfolding item_def by (rule generateFallbackEstimation_nth)
  have rate: "rate item = round2 j"
    by (simp add: eq fallback_item_def Let_def j_def)
  have amount: "amount item = round2 (q * j)"
    by (simp add: q_def eq fallback_item_def Let_def j_def)
  have "amount item - q * rate item = (round2 (q * j) - q * j) + q * (j - round2 j)"
    by (simp add: rate amount algebra_simps)
  then have "\<bar>amount item - q * rate item\<bar> \<le> \<bar>round2 (q * j) - q * j\<bar> + \<bar>q * (j - round2 j)\<bar>"
    by (simp only: abs_triangle_ineq)
  also have "\<dots> = \<bar>round2 (q * j) - q * j\<bar> + \<bar>q\<bar> * \<bar>round2 j - j\<bar>"
    by (simp add: abs_mult abs_minus_commute)
  also have "\<dots> \<le> 1 / 200 + \<bar>q\<bar> * (1 / 200)"
    by (intro add_mono mult_left_mono round2_error) simp
  finally have "\<bar>amount item - q * rate item\<bar> \<le> (\<bar>q\<bar> + 1) / 200"
    by (simp add: add_divide_distrib)
  with rate amount show ?thesis
    unfolding item_def [symmetric] j_def [symmetric] q_def [symmetric] Let_def by simp
qed

lemma fallback_sample_first:
  "LineItem.quantity (fallback_sample ! 0) = 13"
  "rate (fallback_sample ! 0) = 36281 / 100"
  "amount (fallback_sample ! 0) = 471656 / 100"
  by (simp_all add: fallback_sample_def world1_def generateFallbackEstimation_def slice0_def
      Math_floor_def items_catalog_def fallback_item_def round2_def Math_round_def
      floor_rat_numeral)

theorem fallback_item_amount_witness:
  "0 < length (generateFallbackEstimation (sorted_items world1) (random world1)) \<and>
   rate (fallback_sample ! 0) = round2 (450 * (8 / 10 + (1 / 64) * (4 / 10))) \<and>
   \<bar>amount (fallback_sample ! 0) - 13 * rate (fallback_sample ! 0)\<bar> \<le> 14 / 200"
proof -
  have l: "0 < length (generateFallbackEstimation (sorted_items world1) (random world1))"
    using fallback_sample_length by (simp add: fallback_sample_def)
  have b: "baseRate (sorted_items world1 ! 0) = 450" "random world1 (2 * 0 + 2) = 1 / 64"
    by (simp_all add: world1_def items_catalog_def)
  from fallback_item_amount [OF l]
  have "rate (fallback_sample ! 0) = round2 (450 * (8 / 10 + (1 / 64) * (4 / 10)))"
    and "\<bar>amount (fallback_sample ! 0) - 13 * rate (fallback_sample ! 0)\<bar> \<le> (\<bar>13\<bar> + 1) / 200"
    unfolding fallback_sample_def [symmetric] Let_def b fallback_sample_first(1) by blast+
  with l show ?thesis by simp
qed

text \<open>
  C3 in the form of the specification fails: with every draw equal to \<open>1/64\<close> the first item has
  quantity 13, rate 362.81 and amount 4716.56, while 13 times 362.81 is 4716.53.
\<close>

theorem fallback_item_amount_counterexample:
  "amount (fallback_sample ! 0)
     \<noteq> round2 (LineItem.quantity (fallback_sample ! 0) * rate (fallback_sample ! 0))"
proof -
  have "round2 (13 * (36281 / 100)) = 471653 / 100"
    by (simp add: round2_def Math_round_def floor_rat_numeral)
  then show ?thesis
    by (simp add: fallback_sample_first)
qed

section \<open>Properties of the processing pipeline\<close>

lemma process_file_keeps:
  "estimation_items (fst (process_file w u c st f)) = estimation_items (fst st)"
  "projects (fst (process_file w u c st f)) = projects (fst st)"
  by (cases st; simp add: process_file_def update_processing_status_def Let_def
      split: sum.splits)+

lemma loop_keeps:
  "estimation_items (fst (foldl (process_file w u c) st fs)) = estimation_items (fst st) \<and>
   projects (fst (foldl (process_file w u c) st fs)) = projects (fst st)"
  by (induction fs arbitrary: st) (simp_all add: process_file_keeps)

lemma aggregate_results_total:
  assumes "aggregate_results w u acc = (its, tot, avg)"
  shows "tot = sum_list (map amount its)"
  using assms
  by (cases acc) (auto simp add: aggregate_results_def Let_def sum_amounts_sum_list
      split: if_splits)

lemma processProjectFiles_try_InrD:
  assumes "processProjectFiles_try w db projectId = Inr (r, db')"
  shows "\<exists>db2. estimation_items db2 = estimation_items db \<and>
           projects db2 =
             projects (update_project projectId (\<lambda>p. p\<lparr>status := ''processing''\<rparr>) db) \<and>
           totalCost r = sum_list (map amount (items r)) \<and>
           db' = update_project projectId
                   (\<lambda>p. p\<lparr>status := ''completed'', total_cost := totalCost r,
                           Project.accuracy := ProcessingResult.accuracy r,
                           processing_time := Some (processingTime r)\<rparr>)
                   (db2\<lparr>estimation_items :=
                          estimation_items db2 @ map (\<lambda>item. (projectId, item)) (items r)\<rparr>)"
proof -
  define d1 where "d1 = update_project projectId (\<lambda>p. p\<lparr>status := ''processing''\<rparr>) db"
  define fs where "fs = filter (\<lambda>f. project_id f = projectId) (project_files d1)"
  define cfg where "cfg =
     \<lparr>provider = or_str (VITE_AI_PROVIDER (env w)) ''openai'',
      model = or_str (VITE_AI_MODEL (env w)) ''gpt-4o'',
      apiKey = or_str (VITE_OPENAI_API_KEY (env w))
                 (or_str (VITE_ANTHROPIC_API_KEY (env w))
                   (or_str (VITE_GOOGLE_AI_API_KEY (env w)) []))\<rparr>"
  define u where "u = (getAvailableProviders (env w) \<noteq> [] \<and> apiKey cfg \<noteq> [])"
  obtain db2 acc where loop: "foldl (process_file w u cfg) (d1, [], 0, 0) fs = (db2, acc)"
    by (cases "foldl (process_file w u cfg) (d1, [], 0, 0) fs") blast
  obtain its tot avg where agg: "aggregate_results w u acc = (its, tot, avg)"
    by (cases "aggregate_results w u acc") blast
  from loop_keeps [of w u cfg "(d1, [], 0, 0)" fs] loop
  have keep: "estimation_items db2 = estimation_items d1" "projects db2 = projects d1"
    by simp_all
  have d1_items: "estimation_items d1 = estimation_items db"
    by (simp add: d1_def update_project_def)
  from assms have "fs \<noteq> []" and "insert_error w = None"
    and r: "r = \<lparr>totalCost = tot, items = its,
               ProcessingResult.accuracy = of_int (Math_round (avg * 10)) / 10,
               processingTime = decimal (nat (Math_round (of_nat (elapsed_ms w) / 1000))) @ ''s''\<rparr>"
    and db': "db' = update_project projectId
                   (\<lambda>p. p\<lparr>status := ''completed'', total_cost := tot,
                           Project.accuracy := of_int (Math_round (avg * 10)) / 10,
                           processing_time := Some (decimal (nat (Math_round (of_nat (elapsed_ms w) / 1000))) @ ''s'')\<rparr>)
                   (db2\<lparr>estimation_items :=
                          estimation_items db2 @ map (\<lambda>item. (projectId, item)) its\<rparr>)"
    unfolding processProjectFiles_try_def Let_def d1_def [symmetric] fs_def [symmetric]
      cfg_def [symmetric] u_def [symmetric]
    by (auto simp add: loop agg split: if_splits option.splits)
  from aggregate_results_total [OF agg] have "tot = sum_list (map amount its)" .
  with keep d1_items r db' show ?thesis
    unfolding d1_def by (intro exI [of _ db2]) simp
qed

lemma processProjectFiles_InrD:
  assumes "processProjectFiles w db projectId = (Inr r, db')"
  shows "processProjectFiles_try w db projectId = Inr (r, db')"
  using assms by (auto simp add: processProjectFiles_def split: sum.splits prod.splits)

lemma updated_project_row:
  assumes "p \<in> set (projects (update_project projectId f db))"
    and "Project.id p = projectId"
    and "\<And>q. Project.id (f q) = Project.id q"
  shows "\<exists>q \<in> set (projects db). p = f q"
  using assms by (auto simp add: update_project_def split: if_splits)

lemma aggregate_results_real:
  assumes "results \<noteq> []" and "flatten_items results \<noteq> []"
  shows "aggregate_results w True (results, reported, avg) =
           (flatten_items results, sum_list (map amount (flatten_items results)),
            avg / of_nat (length results))"
  using assms by (simp add: aggregate_results_def Let_def sum_amounts_sum_list)

text \<open>The two runs on the concrete project, evaluated.\<close>

lemmas pipeline_defs =
  processProjectFiles_def processProjectFiles_try_def update_project_def
  update_processing_status_def process_file_def analyse_file_def processFile_def
  analyzeWithAI_def aggregate_results_def flatten_items_def to_line_item_def sum_amounts_def
  getAvailableProviders_def truthy_str_def or_str_def message_of_def Math_round_def

lemma decimal_2: "decimal 2 = ''2''"
  by (simp add: decimal.simps)

lemma run1: "processProjectFiles world1 db1 ''p1'' = (Inr result1, db1_processed [(''p1'', slab)])"
  by (simp add: pipeline_defs world1_def db1_def analysis_b_def result1_def slab_def
      db1_processed_def floor_rat_numeral decimal_2 Let_def)

lemma run2:
  "processProjectFiles world1 (db1_processed [(''p1'', slab)]) ''p1'' =
     (Inr result1, db1_processed [(''p1'', slab), (''p1'', slab)])"
  by (simp add: pipeline_defs world1_def db1_def analysis_b_def result1_def slab_def
      db1_processed_def floor_rat_numeral decimal_2 Let_def)

text \<open>
  C1. When the collected analysis results flatten to a non-empty item list, the
  aggregation returns exactly these items with the sum of their amounts as the total,
  whatever sum \<open>reported\<close> of the providers' own totals the loop has accumulated. And
  whenever \<open>processProjectFiles\<close> returns, the \<open>totalCost\<close> of its result and the
  \<open>total_cost\<close> written to the project's row are the sum of the amounts of the returned items.
\<close>

theorem processProjectFiles_total_is_sum:
  "(results \<noteq> [] \<and> flatten_items results \<noteq> [] \<longrightarrow>
      aggregate_results w True (results, reported, avg) =
        (flatten_items results, sum_list (map amount (flatten_items results)),
         avg / of_nat (length results))) \<and>
   (processProjectFiles w db projectId = (Inr r, db') \<longrightarrow>
      totalCost r = sum_list (map amount (items r)) \<and>
      (\<forall>p \<in> set (projects db'). Project.id p = projectId \<longrightarrow>
         status p = ''completed'' \<and> total_cost p = sum_list (map amount (items r))))"
proof (intro conjI impI)
  assume "results \<noteq> [] \<and> flatten_items results \<noteq> []"
  then show "aggregate_results w True (results, reported, avg) =
        (flatten_items results, sum_list (map amount (flatten_items results)),
         avg / of_nat (length results))"
    by (simp add: aggregate_results_real)
next
  assume run: "processProjectFiles w db projectId = (Inr r, db')"
  let ?f = "\<lambda>p. p\<lparr>status := ''completed'', total_cost := totalCost r,
                   Project.accuracy := ProcessingResult.accuracy r,
                   processing_time := Some (processingTime r)\<rparr>"
  from processProjectFiles_try_InrD [OF processProjectFiles_InrD [OF run]]
  obtain db2 where total: "totalCost r = sum_list (map amount (items r))"
    and db': "db' = update_project projectId ?f
                (db2\<lparr>estimation_items :=
                       estimation_items db2 @ map (\<lambda>item. (projectId, item)) (items r)\<rparr>)"
    by blast
  show "totalCost r = sum_list (map amount (items r))"
    by (rule total)
  show "\<forall>p \<in> set (projects db'). Project.id p = projectId \<longrightarrow>
          status p = ''completed'' \<and> total_cost p = sum_list (map amount (items r))"
  proof (intro ballI impI)
    fix p
    assume "p \<in> set (projects db')" and "Project.id p = projectId"
    then obtain q where "p = ?f q"
      unfolding db' using updated_project_row [where f = ?f] by fastforce
    then show "status p = ''completed'' \<and> total_cost p = sum_list (map amount (items r))"
      by (simp add: total)
  qed
qed

theorem processProjectFiles_total_is_sum_witness:
  "[analysis_b] \<noteq> [] \<and> flatten_items [analysis_b] = [slab] \<and>
   aggregate_results world1 True ([analysis_b], 9999, 90) = ([slab], 1500, 90) \<and>
   processProjectFiles world1 db1 ''p1'' = (Inr result1, db1_processed [(''p1'', slab)]) \<and>
   totalCost result1 = sum_list (map amount (items result1)) \<and>
   totalCost result1 = 1500"
proof -
  have f: "flatten_items [analysis_b] = [slab]"
    by (simp add: flatten_items_def analysis_b_def to_line_item_def slab_def)
  have t: "totalCost result1 = 1500"
    by (simp add: result1_def)
  have s: "sum_list (map amount [slab]) = 1500"
    by (simp add: slab_def)
  from processProjectFiles_total_is_sum
    [where results = "[analysis_b]" and w = world1 and reported = 9999 and avg = 90
       and db = db1 and projectId = "''p1''" and r = result1
       and db' = "db1_processed [(''p1'', slab)]"]
    f t s run1
  show ?thesis by simp
qed

text \<open>
  What one iteration of the loop writes as the file's status, with the AI configured:
  \<^verbatim>\<open>error\<close> exactly if the download throws, \<^verbatim>\<open>completed\<close> otherwise, whatever
  extraction and analysis return.
\<close>

lemma update_processing_status_member:
  assumes "f \<in> set (project_files db)"
  shows "f\<lparr>processing_status := s\<rparr>
           \<in> set (project_files (update_processing_status (ProjectFile.id f) s db))"
  using assms by (force simp add: update_processing_status_def)

lemma update_processing_status_twice:
  assumes "f \<in> set (project_files db)"
  shows "f\<lparr>processing_status := s\<rparr>
           \<in> set (project_files
                 (update_processing_status (ProjectFile.id f) s
                   (update_processing_status (ProjectFile.id f) s' db)))"
  using update_processing_status_member
    [OF update_processing_status_member [OF assms, of s'], of s]
  by simp

lemma process_file_status:
  assumes "f \<in> set (project_files db)"
  shows "\<exists>f' \<in> set (project_files (fst (process_file w True c (db, acc) f))).
           ProjectFile.id f' = ProjectFile.id f \<and>
           processing_status f' =
             (case storage_download w (file_url f) of
                Inl e \<Rightarrow> ''error''
              | Inr fileData \<Rightarrow> ''completed'')"
proof (cases "analyse_file w c f acc")
  case (Inl e)
  then obtain e' where d: "storage_download w (file_url f) = Inl e'"
    by (cases acc) (auto simp add: analyse_file_def Let_def
        split: sum.splits option.splits if_splits)
  have "f\<lparr>processing_status := ''error''\<rparr>
          \<in> set (project_files (fst (process_file w True c (db, acc) f)))"
    using update_processing_status_twice [OF assms]
    by (simp add: process_file_def Inl Let_def)
  then show ?thesis
    by (intro bexI [of _ "f\<lparr>processing_status := ''error''\<rparr>"]) (simp_all add: d)
next
  case (Inr acc')
  then obtain fileData where d: "storage_download w (file_url f) = Inr fileData"
    by (cases acc) (auto simp add: analyse_file_def Let_def
        split: sum.splits option.splits if_splits)
  have "f\<lparr>processing_status := ''completed''\<rparr>
          \<in> set (project_files (fst (process_file w True c (db, acc) f)))"
    using update_processing_status_twice [OF assms]
    by (simp add: process_file_def Inr Let_def)
  then show ?thesis
    by (intro bexI [of _ "f\<lparr>processing_status := ''completed''\<rparr>"]) (simp_all add: d)
qed

text \<open>
  C8. In the concrete project the provider's call throws for \<^verbatim>\<open>a.pdf\<close>, so the analysis
  of that file fails, and succeeds for \<^verbatim>\<open>b.pdf\<close>. The run completes the project with the
  item of \<^verbatim>\<open>b.pdf\<close>, but it leaves both files, the failed one too, with the processing
  status \<^verbatim>\<open>completed\<close>: \<^verbatim>\<open>analyzeWithAI\<close> returns the failure in the \<^verbatim>\<open>error\<close>
  field, the loop skips the document and goes on to the update that marks the file
  completed; only a throw inside the loop body reaches the update to \<^verbatim>\<open>error\<close>.
\<close>

theorem failed_analysis_marked_completed:
  "error (analyzeWithAI world1 (processFile world1 file_a) config1)
     = Some ''AI analysis failed: timeout'' \<and>
   fst first_run = Inr result1 \<and>
   items result1 = [slab] \<and>
   map status (projects (snd first_run)) = [''completed''] \<and>
   map (\<lambda>f. (file_name f, processing_status f)) (project_files (snd first_run))
     = [(''a.pdf'', ''completed''), (''b.pdf'', ''completed'')]"
proof -
  have "error (analyzeWithAI world1 (processFile world1 file_a) config1)
          = Some ''AI analysis failed: timeout''"
    by (simp add: analyzeWithAI_def processFile_def world1_def file_a_def truthy_str_def
        message_of_def)
  then show ?thesis
    by (simp add: first_run_def run1 result1_def db1_processed_def)
qed

lemma appended_rows:
  assumes "processProjectFiles w db projectId = (Inr r, db')"
  shows "estimation_items db' =
           estimation_items db @ map (\<lambda>item. (projectId, item)) (items r)"
proof -
  from processProjectFiles_try_InrD [OF processProjectFiles_InrD [OF assms]]
  obtain db2 where "estimation_items db2 = estimation_items db"
    and "db' = update_project projectId
                (\<lambda>p. p\<lparr>status := ''completed'', total_cost := totalCost r,
                        Project.accuracy := ProcessingResult.accuracy r,
                        processing_time := Some (processingTime r)\<rparr>)
                (db2\<lparr>estimation_items :=
                       estimation_items db2 @ map (\<lambda>item. (projectId, item)) (items r)\<rparr>)"
    by blast
  then show ?thesis
    by (simp add: update_project_def)
qed

text \<open>
  C9, as the code has it. A run that returns appends the rows of its items to the rows
  the store already holds. After two successful runs on a project the table holds the rows
  from before, then the items of the first run, then the items of the second run.
\<close>

theorem rerun_appends_items:
  assumes "processProjectFiles w1 db projectId = (Inr r1, d1)"
    and "processProjectFiles w2 d1 projectId = (Inr r2, d2)"
  shows "estimation_items d2 =
           estimation_items db @ map (\<lambda>item. (projectId, item)) (items r1)
             @ map (\<lambda>item. (projectId, item)) (items r2)"
  using appended_rows [OF assms(1)] appended_rows [OF assms(2)] by simp

theorem rerun_appends_items_witness:
  "processProjectFiles world1 db1 ''p1'' = (Inr result1, db1_processed [(''p1'', slab)]) \<and>
   processProjectFiles world1 (db1_processed [(''p1'', slab)]) ''p1''
     = (Inr result1, db1_processed [(''p1'', slab), (''p1'', slab)]) \<and>
   estimation_items (db1_processed [(''p1'', slab), (''p1'', slab)])
     = estimation_items db1 @ [(''p1'', slab)] @ [(''p1'', slab)]"
proof -
  have i: "items result1 = [slab]"
    by (simp add: result1_def)
  from rerun_appends_items [OF run1 run2] run1 run2 i show ?thesis by simp
qed

text \<open>
  C9 in the form of the specification fails: the second run on the concrete project returns the
  one item \<open>slab\<close>, and the table then holds two rows for the project, the row of the
  first run and the row of the second.
\<close>

theorem rerun_replaces_items_counterexample:
  "fst first_run = Inr result1 \<and> fst second_run = Inr result1 \<and>
   map fst (estimation_items (snd second_run)) = [''p1'', ''p1''] \<and>
   map snd (estimation_items (snd second_run)) \<noteq> items result1"
proof -
  have a: "first_run = (Inr result1, db1_processed [(''p1'', slab)])"
    by (simp add: first_run_def run1)
  have b: "second_run = (Inr result1, db1_processed [(''p1'', slab), (''p1'', slab)])"
    by (simp add: second_run_def a run2)
  show ?thesis
    by (simp add: a b result1_def db1_processed_def)
qed

end
